theory Spec2Isabelle
  imports Main
begin

section \<open>Strings as the routes use them\<close>

text \<open>
  A JavaScript string is modelled as a list of code units below 256. An absent
  (\<^verbatim>\<open>undefined\<close>) query parameter or body field is \<open>None\<close>. A string is truthy
  exactly when it is not empty, which is what \<^verbatim>\<open>if (status)\<close> and
  \<^verbatim>\<open>filter(Boolean)\<close> test.
\<close>

definition truthy :: "string option \<Rightarrow> bool" where
  "truthy p = (case p of None \<Rightarrow> False | Some s \<Rightarrow> s \<noteq> [])"

text \<open>
  \<^verbatim>\<open>String.prototype.trim\<close> strips white space and line terminators at both ends.
  Those with a code below 256 are TAB, LF, VT, FF, CR, SPACE and NBSP.
\<close>

definition isWhiteSpace :: "char \<Rightarrow> bool" where
  "isWhiteSpace c = ((of_char c :: nat) \<in> {9, 10, 11, 12, 13, 32, 160})"

definition trim :: "string \<Rightarrow> string" where
  "trim s = rev (dropWhile isWhiteSpace (rev (dropWhile isWhiteSpace s)))"

text \<open>
  \<^verbatim>\<open>s.split(',')\<close>: one token per separator plus one, so the empty string gives
  one empty token and adjacent separators give an empty token between them. The
  second argument holds the characters of the token being read, newest first.
\<close>

fun split_acc :: "char \<Rightarrow> string \<Rightarrow> string \<Rightarrow> string list" where
  "split_acc sep acc [] = [rev acc]"
| "split_acc sep acc (c # cs) =
     (if c = sep then rev acc # split_acc sep [] cs else split_acc sep (c # acc) cs)"

definition split :: "char \<Rightarrow> string \<Rightarrow> string list" where
  "split sep s = split_acc sep [] s"

section \<open>Tokenising a comma-separated skills string\<close>

text \<open>
  The job listing (\<^verbatim>\<open>GET /jobs\<close>, parameter \<^verbatim>\<open>requiredSkills\<close>):
  \<^verbatim>\<open>requiredSkills.split(',').map(skill => skill.trim())\<close>.
\<close>

definition skillsArray_filter :: "string \<Rightarrow> string list" where
  "skillsArray_filter requiredSkills = map trim (split CHR '','' requiredSkills)"

text \<open>
  Creating a candidate with a resume (\<^verbatim>\<open>POST /candidate/with-resume\<close>):
  \<^verbatim>\<open>skills.split(',').map(skill => skill.trim()).filter(Boolean)\<close>.
\<close>

definition skillsArray_create :: "string \<Rightarrow> string list" where
  "skillsArray_create skills = filter (\<lambda>t. t \<noteq> []) (map trim (split CHR '','' skills))"

section \<open>Patterns and the regular-expression engine\<close>

text \<open>
  A pattern is the pair the routes build: \<^verbatim>\<open>{ $regex: p, $options: 'i' }\<close> or
  \<^verbatim>\<open>new RegExp(p, 'i')\<close>. The engine that compiles and runs patterns belongs to the
  runtime and the document store, so it is a parameter: \<open>compiles\<close> says whether a
  pattern is a valid regular expression, \<open>test\<close> whether it matches somewhere
  in a string.
\<close>

record regex =
  rx_pattern :: string
  rx_options :: string

record engine =
  compiles :: "regex \<Rightarrow> bool"
  test :: "regex \<Rightarrow> string \<Rightarrow> bool"

definition ci :: "string \<Rightarrow> regex" where
  "ci p = \<lparr>rx_pattern = p, rx_options = ''i''\<rparr>"

text \<open>
  Containment, letter case ignored: what a pattern without metacharacters and
  with option \<^verbatim>\<open>i\<close> tests.
\<close>

definition toLower :: "char \<Rightarrow> char" where
  "toLower c = (let n = (of_char c :: nat) in if 65 \<le> n \<and> n \<le> 90 then char_of (n + 32) else c)"

fun startsWith :: "string \<Rightarrow> string \<Rightarrow> bool" where
  "startsWith [] s = True"
| "startsWith (p # ps) [] = False"
| "startsWith (p # ps) (c # cs) = (p = c \<and> startsWith ps cs)"

fun contains_str :: "string \<Rightarrow> string \<Rightarrow> bool" where
  "contains_str p [] = (p = [])"
| "contains_str p (c # cs) = (startsWith p (c # cs) \<or> contains_str p cs)"

definition contains_ci :: "string \<Rightarrow> string \<Rightarrow> bool" where
  "contains_ci p s = contains_str (map toLower p) (map toLower s)"

text \<open>
  One engine to compute with: the regular expressions made of ordinary
  characters and the wildcard \<^verbatim>\<open>.\<close>, which stands for any character except a line
  terminator. A pattern is searched for anywhere in the string; with option
  \<^verbatim>\<open>i\<close> letter case is ignored. The other metacharacters
  (\<^verbatim>\<open>$ ( ) * + ? [ \ ] ^ { | }\<close>) are outside this engine, which refuses a
  pattern that uses one.
\<close>

definition isMetaChar :: "char \<Rightarrow> bool" where
  "isMetaChar c =
     ((of_char c :: nat) \<in> {36, 40, 41, 42, 43, 63, 91, 92, 93, 94, 123, 124, 125})"

definition isLineTerminator :: "char \<Rightarrow> bool" where
  "isLineTerminator c = ((of_char c :: nat) \<in> {10, 13})"

fun matchesAt :: "string \<Rightarrow> string \<Rightarrow> bool" where
  "matchesAt [] s = True"
| "matchesAt (p # ps) [] = False"
| "matchesAt (p # ps) (c # cs) =
     ((if p = CHR ''.'' then \<not> isLineTerminator c else p = c) \<and> matchesAt ps cs)"

fun matchesSomewhere :: "string \<Rightarrow> string \<Rightarrow> bool" where
  "matchesSomewhere p [] = (p = [])"
| "matchesSomewhere p (c # cs) = (matchesAt p (c # cs) \<or> matchesSomewhere p cs)"

definition wildcard_engine :: engine where
  "wildcard_engine =
     \<lparr>compiles = (\<lambda>r. \<not> list_ex isMetaChar (rx_pattern r)),
      test = (\<lambda>r s. if CHR ''i'' \<in> set (rx_options r)
                     then matchesSomewhere (map toLower (rx_pattern r)) (map toLower s)
                     else matchesSomewhere (rx_pattern r) s)\<rparr>"

section \<open>The environment of a request\<close>

text \<open>
  What a handler reads from outside the request: the clock (\<^verbatim>\<open>Date.now()\<close>,
  \<^verbatim>\<open>new Date()\<close>, in milliseconds), the identifier a model constructor assigns to a
  new document, the cast of a path parameter to an \<^verbatim>\<open>ObjectId\<close> (\<open>None\<close> when
  the identifier is malformed), \<^verbatim>\<open>new Date(s)\<close> and \<^verbatim>\<open>Number(s)\<close> (\<open>None\<close> for an
  invalid date and for NaN), the regular-expression engine, whether
  \<^verbatim>\<open>NODE_ENV\<close> is \<^verbatim>\<open>development\<close>, whether the file system lets a path be
  unlinked, and whether the multipart parser counts a file of exactly the size
  limit as too large (parsers differ on the boundary).
\<close>

type_synonym objid = string
type_synonym date = int

record env =
  now :: date
  newObjectId :: objid
  castObjectId :: "string \<Rightarrow> objid option"
  parseDate :: "string \<Rightarrow> date option"
  toNumber :: "string \<Rightarrow> int option"
  rx :: engine
  development :: bool
  unlink_ok :: "string \<Rightarrow> bool"
  rejects_at_limit :: bool

text \<open>The driver's textual identifier format: 24 hexadecimal digits.\<close>

definition isHexDigit :: "char \<Rightarrow> bool" where
  "isHexDigit c =
     (let n = (of_char c :: nat)
      in (48 \<le> n \<and> n \<le> 57) \<or> (65 \<le> n \<and> n \<le> 70) \<or> (97 \<le> n \<and> n \<le> 102))"

definition hex24 :: "string \<Rightarrow> objid option" where
  "hex24 s = (if length s = 24 \<and> list_all isHexDigit s then Some (map toLower s) else None)"

section \<open>Errors and responses\<close>

text \<open>
  The exceptions a handler can catch, by the class the handlers distinguish
  (\<^verbatim>\<open>err.name\<close>). The argument is \<^verbatim>\<open>err.message\<close>.
\<close>

datatype error =
    CastError string
  | ValidationError string
  | MongoError string
  | TypeError string
  | SyntaxError string
  | PlainError string
  | MulterError string

fun err_name :: "error \<Rightarrow> string" where
  "err_name (CastError m) = ''CastError''"
| "err_name (ValidationError m) = ''ValidationError''"
| "err_name (MongoError m) = ''MongoServerError''"
| "err_name (TypeError m) = ''TypeError''"
| "err_name (SyntaxError m) = ''SyntaxError''"
| "err_name (PlainError m) = ''Error''"
| "err_name (MulterError m) = ''MulterError''"

fun err_message :: "error \<Rightarrow> string" where
  "err_message (CastError m) = m"
| "err_message (ValidationError m) = m"
| "err_message (MongoError m) = m"
| "err_message (TypeError m) = m"
| "err_message (SyntaxError m) = m"
| "err_message (PlainError m) = m"
| "err_message (MulterError m) = m"

text \<open>None of these error objects carries a \<^verbatim>\<open>status\<close> or \<^verbatim>\<open>statusCode\<close> property.\<close>

definition err_status :: "error \<Rightarrow> nat option" where
  "err_status e = None"

section \<open>Documents\<close>

record company =
  co_name :: string
  co_website :: "string option"
  co_logo :: "string option"

record salary =
  sal_min :: int
  sal_max :: int
  sal_currency :: string
  sal_period :: string

record job =
  j_id :: objid
  j_title :: string
  j_company :: company
  j_description :: string
  j_requirements :: "string list"
  j_responsibilities :: "string list"
  j_jobType :: string
  j_experienceLevel :: string
  j_location :: string
  j_remote :: bool
  j_salary :: salary
  j_primaryTechnology :: string
  j_requiredSkills :: "string list"
  j_benefits :: "string list"
  j_status :: string
  j_applicationDeadline :: date
  j_postedDate :: date
  j_updatedAt :: date
  j_views :: int
  j_applications :: int

record resume_file =
  rf_filename :: "string option"
  rf_path :: "string option"
  rf_mimetype :: "string option"

text \<open>
  A candidate is the fields that \<^verbatim>\<open>.select('-resumeFile')\<close> keeps, extended by
  \<^verbatim>\<open>resumeFile\<close>.
\<close>

record candidate_lean =
  c_id :: objid
  c_name :: string
  c_email :: string
  c_yearsOfExp :: int
  c_technology :: string
  c_skills :: "string list"
  c_experience :: int
  c_avatar :: string
  c_status :: string
  c_createdAt :: date
  c_updatedAt :: date

record candidate = candidate_lean +
  c_resumeFile :: resume_file

record hotlist =
  h_id :: objid
  h_name :: string
  h_description :: "string option"
  h_candidates :: "objid list"
  h_createdAt :: date

text \<open>A hotlist whose candidate references have been expanded by \<^verbatim>\<open>populate\<close>.\<close>

record populated_hotlist =
  ph_id :: objid
  ph_name :: string
  ph_description :: "string option"
  ph_candidates :: "candidate list"
  ph_createdAt :: date

text \<open>
  The document store: three collections in insertion order, and whether the
  connection is usable (an operation on a broken connection is rejected).
\<close>

record db =
  db_up :: bool
  jobs :: "job list"
  candidates :: "candidate list"
  hotlists :: "hotlist list"

datatype body =
    Message string
  | MessageOf error
  | Failure string "error option"
  | JobData job
  | JobDoc job
  | CandidateDoc candidate
  | CandidateList "candidate list"
  | CandidateData "candidate_lean list"
  | HotlistDoc populated_hotlist
  | ErrorPage error

record response =
  res_status :: nat
  res_body :: body

definition respond :: "nat \<Rightarrow> body \<Rightarrow> response" where
  "respond code b = \<lparr>res_status = code, res_body = b\<rparr>"

text \<open>\<^verbatim>\<open>error: process.env.NODE_ENV === 'development' ? err.message : undefined\<close>\<close>

definition detail :: "env \<Rightarrow> error \<Rightarrow> error option" where
  "detail e err = (if development e then Some err else None)"

section \<open>The job listing query\<close>

text \<open>
  The query parameters of \<^verbatim>\<open>GET /jobs\<close> that take part in the filter. The filter
  is specified on string-valued parameters; a parameter repeated or written with
  brackets, which the framework parses to an array or an object, is outside this
  model.
\<close>

record job_params =
  p_status :: "string option"
  p_jobType :: "string option"
  p_experienceLevel :: "string option"
  p_primaryTechnology :: "string option"
  p_remote :: "string option"
  p_requiredSkills :: "string option"
  p_location :: "string option"
  p_search :: "string option"

text \<open>
  The query object handed to \<^verbatim>\<open>Job.find\<close>. A key the route does not set is
  \<open>None\<close>; \<open>q_or\<close> is the \<^verbatim>\<open>$or\<close> key, a list of (field, pattern) clauses;
  \<open>q_requiredSkills\<close> is the \<^verbatim>\<open>$in\<close> list of patterns.
\<close>

datatype text_field = Title | Description | CompanyName

record job_query =
  q_status :: "string option"
  q_jobType :: "string option"
  q_experienceLevel :: "string option"
  q_primaryTechnology :: "string option"
  q_remote :: "bool option"
  q_location :: "regex option"
  q_or :: "(text_field \<times> regex) list option"
  q_requiredSkills :: "regex list option"

definition empty_query :: job_query where
  "empty_query =
     \<lparr>q_status = None, q_jobType = None, q_experienceLevel = None,
      q_primaryTechnology = None, q_remote = None, q_location = None,
      q_or = None, q_requiredSkills = None\<rparr>"

text \<open>
  The filter construction of the route, statement by statement. Seven keys are
  guarded by truthiness; \<^verbatim>\<open>remote\<close> is guarded by \<^verbatim>\<open>remote !== undefined\<close>. The
  patterns of \<^verbatim>\<open>location\<close> and \<^verbatim>\<open>search\<close> are handed over as strings. Those of
  \<^verbatim>\<open>requiredSkills\<close> are compiled here by \<^verbatim>\<open>new RegExp(skill, 'i')\<close>, which throws
  a SyntaxError on a token that is not a regular expression: then no query is
  built, and the route's \<^verbatim>\<open>catch\<close> answers 500.
\<close>

definition build_query :: "engine \<Rightarrow> job_params \<Rightarrow> error + job_query" where
  "build_query g p =
     (let query =
        \<lparr>q_status = (if truthy (p_status p) then p_status p else None),
         q_jobType = (if truthy (p_jobType p) then p_jobType p else None),
         q_experienceLevel =
           (if truthy (p_experienceLevel p) then p_experienceLevel p else None),
         q_primaryTechnology =
           (if truthy (p_primaryTechnology p) then p_primaryTechnology p else None),
         q_remote = (case p_remote p of None \<Rightarrow> None | Some r \<Rightarrow> Some (r = ''true'')),
         q_location = (if truthy (p_location p) then map_option ci (p_location p) else None),
         q_or = (if truthy (p_search p)
                 then map_option
                        (\<lambda>s. [(Title, ci s), (Description, ci s), (CompanyName, ci s)])
                        (p_search p)
                 else None),
         q_requiredSkills = None\<rparr>
      in case p_requiredSkills p of
           None \<Rightarrow> Inr query
         | Some requiredSkills \<Rightarrow>
             if requiredSkills = [] then Inr query
             else (let skillsArray = skillsArray_filter requiredSkills
                   in if list_all (\<lambda>skill. compiles g (ci skill)) skillsArray
                      then Inr (query\<lparr>q_requiredSkills := Some (map ci skillsArray)\<rparr>)
                      else Inl (SyntaxError ''Invalid regular expression'')))"

text \<open>
  How the store evaluates the listing query against one job, given that it
  compiles the patterns of the query: every key that is set must hold; \<^verbatim>\<open>$or\<close>
  holds when one of its clauses does; \<^verbatim>\<open>$in\<close> with patterns holds when some
  stored skill matches some pattern.
\<close>

fun field_of :: "text_field \<Rightarrow> job \<Rightarrow> string" where
  "field_of Title j = j_title j"
| "field_of Description j = j_description j"
| "field_of CompanyName j = co_name (j_company j)"

definition holds :: "'a option \<Rightarrow> ('a \<Rightarrow> bool) \<Rightarrow> bool" where
  "holds k P = (case k of None \<Rightarrow> True | Some v \<Rightarrow> P v)"

definition job_matches :: "engine \<Rightarrow> job_query \<Rightarrow> job \<Rightarrow> bool" where
  "job_matches g q j =
     (holds (q_status q) (\<lambda>v. j_status j = v) \<and>
      holds (q_jobType q) (\<lambda>v. j_jobType j = v) \<and>
      holds (q_experienceLevel q) (\<lambda>v. j_experienceLevel j = v) \<and>
      holds (q_primaryTechnology q) (\<lambda>v. j_primaryTechnology j = v) \<and>
      holds (q_remote q) (\<lambda>v. j_remote j = v) \<and>
      holds (q_location q) (\<lambda>r. test g r (j_location j)) \<and>
      holds (q_or q) (list_ex (\<lambda>(f, r). test g r (field_of f j))) \<and>
      holds (q_requiredSkills q)
        (list_ex (\<lambda>r. list_ex (test g r) (j_requiredSkills j))))"

section \<open>Jobs: schema, save, counters\<close>

text \<open>
  The body of \<^verbatim>\<open>POST /jobs\<close>. A sequence field is absent, an array of strings, a
  string, or some other JSON value (a number, a boolean, \<^verbatim>\<open>null\<close>, an object),
  which has no \<^verbatim>\<open>split\<close> method.
\<close>

datatype seq_input = Absent | Arr "string list" | Str string | Other

record company_body =
  cb_name :: "string option"
  cb_website :: "string option"
  cb_logo :: "string option"

record salary_body =
  sb_min :: "int option"
  sb_max :: "int option"
  sb_currency :: "string option"
  sb_period :: "string option"

record job_body =
  b_title :: "string option"
  b_company :: "company_body option"
  b_description :: "string option"
  b_requirements :: seq_input
  b_responsibilities :: seq_input
  b_jobType :: "string option"
  b_experienceLevel :: "string option"
  b_location :: "string option"
  b_remote :: "bool option"
  b_salary :: "salary_body option"
  b_primaryTechnology :: "string option"
  b_requiredSkills :: seq_input
  b_benefits :: seq_input
  b_status :: "string option"
  b_applicationDeadline :: "string option"

text \<open>
  \<^verbatim>\<open>Array.isArray(x) ? x : x.split(',').map(t => t.trim())\<close>: calling \<^verbatim>\<open>split\<close> on
  \<^verbatim>\<open>undefined\<close>, on \<^verbatim>\<open>null\<close> or on a value without that method throws a TypeError.
\<close>

fun to_sequence :: "seq_input \<Rightarrow> error + string list" where
  "to_sequence (Arr xs) = Inr xs"
| "to_sequence (Str s) = Inr (map trim (split CHR '','' s))"
| "to_sequence Absent = Inl (TypeError ''Cannot read properties of undefined (reading 'split')'')"
| "to_sequence Other = Inl (TypeError ''split is not a function'')"

text \<open>
  The argument of \<^verbatim>\<open>new Job({...})\<close> once the four sequence fields have been
  computed: the remaining body fields as they came, and the parsed deadline.
\<close>

record job_input =
  ji_body :: job_body
  ji_requirements :: "string list"
  ji_responsibilities :: "string list"
  ji_requiredSkills :: "string list"
  ji_benefits :: "string list"
  ji_applicationDeadline :: "date option"

definition required :: "string option \<Rightarrow> bool" where
  "required v = truthy v"

definition jobTypes :: "string list" where
  "jobTypes = [''Full-time'', ''Part-time'', ''Contract'', ''Freelance'']"

definition experienceLevels :: "string list" where
  "experienceLevels = [''Entry Level'', ''Mid Level'', ''Senior Level'', ''Lead'', ''Manager'']"

definition job_statuses :: "string list" where
  "job_statuses = [''active'', ''closed'', ''draft'']"

definition salary_periods :: "string list" where
  "salary_periods = [''yearly'', ''monthly'', ''weekly'', ''hourly'']"

definition in_enum :: "string list \<Rightarrow> string option \<Rightarrow> bool" where
  "in_enum vs v = (case v of None \<Rightarrow> True | Some s \<Rightarrow> s \<in> set vs)"

definition default :: "'a \<Rightarrow> 'a option \<Rightarrow> 'a" where
  "default d v = (case v of None \<Rightarrow> d | Some x \<Rightarrow> x)"

text \<open>
  The schema validation that \<^verbatim>\<open>save()\<close> runs first: required paths, enumerations,
  and the deadline being a valid date.
\<close>

definition Job_valid :: "job_input \<Rightarrow> bool" where
  "Job_valid i =
     (let b = ji_body i in
      required (b_title b) \<and>
      (case b_company b of None \<Rightarrow> False | Some c \<Rightarrow> required (cb_name c)) \<and>
      required (b_description b) \<and>
      required (b_jobType b) \<and> in_enum jobTypes (b_jobType b) \<and>
      required (b_experienceLevel b) \<and> in_enum experienceLevels (b_experienceLevel b) \<and>
      required (b_location b) \<and>
      (case b_salary b of None \<Rightarrow> False
       | Some s \<Rightarrow> sb_min s \<noteq> None \<and> sb_max s \<noteq> None \<and> in_enum salary_periods (sb_period s)) \<and>
      required (b_primaryTechnology b) \<and>
      in_enum job_statuses (b_status b) \<and>
      ji_applicationDeadline i \<noteq> None)"

text \<open>The document \<^verbatim>\<open>new Job(i)\<close>, with the schema defaults filled in.\<close>

definition new_company :: "company_body option \<Rightarrow> company" where
  "new_company c =
     \<lparr>co_name = default [] (Option.bind c cb_name),
      co_website = Option.bind c cb_website,
      co_logo = Option.bind c cb_logo\<rparr>"

definition new_salary :: "salary_body option \<Rightarrow> salary" where
  "new_salary s =
     \<lparr>sal_min = default 0 (Option.bind s sb_min),
      sal_max = default 0 (Option.bind s sb_max),
      sal_currency = default ''USD'' (Option.bind s sb_currency),
      sal_period = default ''yearly'' (Option.bind s sb_period)\<rparr>"

definition new_Job :: "env \<Rightarrow> job_input \<Rightarrow> job" where
  "new_Job e i =
     (let b = ji_body i in
      \<lparr>j_id = newObjectId e,
       j_title = default [] (b_title b),
       j_company = new_company (b_company b),
       j_description = default [] (b_description b),
       j_requirements = ji_requirements i,
       j_responsibilities = ji_responsibilities i,
       j_jobType = default [] (b_jobType b),
       j_experienceLevel = default [] (b_experienceLevel b),
       j_location = default [] (b_location b),
       j_remote = default False (b_remote b),
       j_salary = new_salary (b_salary b),
       j_primaryTechnology = default [] (b_primaryTechnology b),
       j_requiredSkills = ji_requiredSkills i,
       j_benefits = ji_benefits i,
       j_status = default ''draft'' (b_status b),
       j_applicationDeadline = default 0 (ji_applicationDeadline i),
       j_postedDate = now e,
       j_updatedAt = now e,
       j_views = 0,
       j_applications = 0\<rparr>)"

text \<open>\<^verbatim>\<open>jobSchema.pre('save', function(next) { this.updatedAt = new Date(); next(); })\<close>\<close>

definition job_pre_save :: "env \<Rightarrow> job \<Rightarrow> job" where
  "job_pre_save e j = j\<lparr>j_updatedAt := now e\<rparr>"

text \<open>
  Writing a document: the one stored under the same identifier is replaced, a new
  one is appended.
\<close>

fun put_job :: "job \<Rightarrow> job list \<Rightarrow> job list" where
  "put_job d [] = [d]"
| "put_job d (x # xs) = (if j_id x = j_id d then d # xs else x # put_job d xs)"

text \<open>
  \<^verbatim>\<open>doc.save()\<close> on a document that passed validation: the pre-save hook runs,
  then the document is written.
\<close>

definition Job_save :: "env \<Rightarrow> db \<Rightarrow> job \<Rightarrow> error + (db \<times> job)" where
  "Job_save e s d =
     (let d' = job_pre_save e d in
      if db_up s then Inr (s\<lparr>jobs := put_job d' (jobs s)\<rparr>, d')
      else Inl (MongoError ''connection''))"

text \<open>
  \<^verbatim>\<open>Job.findByIdAndUpdate(id, { $inc: { field: 1 } }, { new: true })\<close>: one update
  operation that the store applies to the matching document as a whole. The
  identifier is cast first; a malformed one throws a CastError. The result is the
  updated document, or \<^verbatim>\<open>null\<close> when no document has the identifier.
\<close>

datatype counter = Views | Applications

fun inc :: "counter \<Rightarrow> job \<Rightarrow> job" where
  "inc Views j = j\<lparr>j_views := j_views j + 1\<rparr>"
| "inc Applications j = j\<lparr>j_applications := j_applications j + 1\<rparr>"

fun find_job :: "objid \<Rightarrow> job list \<Rightarrow> job option" where
  "find_job i [] = None"
| "find_job i (x # xs) = (if j_id x = i then Some x else find_job i xs)"

fun update_job :: "objid \<Rightarrow> (job \<Rightarrow> job) \<Rightarrow> job list \<Rightarrow> job list" where
  "update_job i f [] = []"
| "update_job i f (x # xs) = (if j_id x = i then f x # xs else x # update_job i f xs)"

definition Job_findByIdAndUpdate ::
  "env \<Rightarrow> db \<Rightarrow> string \<Rightarrow> counter \<Rightarrow> error + (db \<times> job option)" where
  "Job_findByIdAndUpdate e s rid c =
     (case castObjectId e rid of
        None \<Rightarrow> Inl (CastError ''Cast to ObjectId failed'')
      | Some i \<Rightarrow>
          if \<not> db_up s then Inl (MongoError ''connection'')
          else Inr (s\<lparr>jobs := update_job i (inc c) (jobs s)\<rparr>,
                    map_option (inc c) (find_job i (jobs s))))"

section \<open>Job routes\<close>

text \<open>\<^verbatim>\<open>GET /jobs/:id\<close>\<close>

definition get_job :: "env \<Rightarrow> db \<Rightarrow> string \<Rightarrow> db \<times> response" where
  "get_job e s rid =
     (case Job_findByIdAndUpdate e s rid Views of
        Inr (s', None) \<Rightarrow> (s', respond 404 (Failure ''Job not found'' None))
      | Inr (s', Some j) \<Rightarrow> (s', respond 200 (JobData j))
      | Inl err \<Rightarrow>
          if err_name err = ''CastError''
          then (s, respond 400 (Failure ''Invalid job ID format'' None))
          else (s, respond 500 (Failure ''Error fetching job details'' (detail e err))))"

text \<open>\<^verbatim>\<open>POST /jobs/:id/apply\<close>\<close>

definition apply_job :: "env \<Rightarrow> db \<Rightarrow> string \<Rightarrow> db \<times> response" where
  "apply_job e s rid =
     (case Job_findByIdAndUpdate e s rid Applications of
        Inr (s', None) \<Rightarrow> (s', respond 404 (Message ''Job not found''))
      | Inr (s', Some j) \<Rightarrow> (s', respond 200 (JobDoc j))
      | Inl err \<Rightarrow> (s, respond 500 (MessageOf err)))"

text \<open>
  \<^verbatim>\<open>POST /jobs\<close>. The object literal is evaluated field by field, so the four
  sequence fields are computed in the order requirements, responsibilities,
  requiredSkills, benefits, and the first exception ends the \<^verbatim>\<open>try\<close> block.
\<close>

definition post_jobs :: "env \<Rightarrow> db \<Rightarrow> job_body \<Rightarrow> db \<times> response" where
  "post_jobs e s b =
     (case to_sequence (b_requirements b) of
        Inl err \<Rightarrow> (s, respond 400 (MessageOf err))
      | Inr reqs \<Rightarrow>
     (case to_sequence (b_responsibilities b) of
        Inl err \<Rightarrow> (s, respond 400 (MessageOf err))
      | Inr resps \<Rightarrow>
     (case to_sequence (b_requiredSkills b) of
        Inl err \<Rightarrow> (s, respond 400 (MessageOf err))
      | Inr skills \<Rightarrow>
     (case to_sequence (b_benefits b) of
        Inl err \<Rightarrow> (s, respond 400 (MessageOf err))
      | Inr bens \<Rightarrow>
          (let i = \<lparr>ji_body = b, ji_requirements = reqs, ji_responsibilities = resps,
                    ji_requiredSkills = skills, ji_benefits = bens,
                    ji_applicationDeadline = Option.bind (b_applicationDeadline b) (parseDate e)\<rparr>
           in if \<not> Job_valid i
              then (s, respond 400 (MessageOf (ValidationError ''Job validation failed'')))
              else (case Job_save e s (new_Job e i) of
                      Inl err \<Rightarrow> (s, respond 400 (MessageOf err))
                    | Inr (s', j) \<Rightarrow> (s', respond 201 (JobDoc j))))))))"

section \<open>Candidates: schema, save, lookup, search\<close>

datatype number_input = NoNumber | NaN | Num int

record candidate_input =
  ci_name :: "string option"
  ci_email :: "string option"
  ci_yearsOfExp :: number_input
  ci_technology :: "string option"
  ci_skills :: "string list option"
  ci_experience :: number_input
  ci_avatar :: "string option"
  ci_status :: "string option"
  ci_resumeFile :: "resume_file option"

definition candidate_statuses :: "string list" where
  "candidate_statuses = [''active'', ''inactive'', ''pending'']"

fun number_or :: "int \<Rightarrow> number_input \<Rightarrow> int" where
  "number_or d NoNumber = d"
| "number_or d NaN = d"
| "number_or d (Num n) = n"

text \<open>
  The schema validation that \<^verbatim>\<open>save()\<close> runs first. A default only replaces
  \<^verbatim>\<open>undefined\<close>, so an empty \<^verbatim>\<open>technology\<close> fails \<^verbatim>\<open>required\<close>; NaN fails the cast to
  Number.
\<close>

definition Candidate_valid :: "candidate_input \<Rightarrow> bool" where
  "Candidate_valid i =
     (required (ci_name i) \<and> required (ci_email i) \<and>
      ci_yearsOfExp i \<noteq> NaN \<and>
      (ci_technology i = None \<or> required (ci_technology i)) \<and>
      ci_experience i \<noteq> NaN \<and>
      in_enum candidate_statuses (ci_status i))"

definition new_Candidate :: "env \<Rightarrow> candidate_input \<Rightarrow> candidate" where
  "new_Candidate e i =
     \<lparr>c_id = newObjectId e,
      c_name = default [] (ci_name i),
      c_email = default [] (ci_email i),
      c_yearsOfExp = number_or 0 (ci_yearsOfExp i),
      c_technology = default ''Not Specified'' (ci_technology i),
      c_skills = default [] (ci_skills i),
      c_experience = number_or 0 (ci_experience i),
      c_avatar = default ''https://example.com/default-avatar.jpg'' (ci_avatar i),
      c_status = default ''pending'' (ci_status i),
      c_createdAt = now e,
      c_updatedAt = now e,
      c_resumeFile =
        default \<lparr>rf_filename = None, rf_path = None, rf_mimetype = None\<rparr> (ci_resumeFile i)\<rparr>"

text \<open>\<^verbatim>\<open>candidateSchema.pre('save', function(next) { this.updatedAt = new Date(); next(); })\<close>\<close>

definition candidate_pre_save :: "env \<Rightarrow> candidate \<Rightarrow> candidate" where
  "candidate_pre_save e c = c\<lparr>c_updatedAt := now e\<rparr>"

fun put_candidate :: "candidate \<Rightarrow> candidate list \<Rightarrow> candidate list" where
  "put_candidate d [] = [d]"
| "put_candidate d (x # xs) = (if c_id x = c_id d then d # xs else x # put_candidate d xs)"

text \<open>
  \<^verbatim>\<open>doc.save()\<close> on a document that passed validation: the pre-save hook runs,
  then the store writes the document unless the unique index on \<^verbatim>\<open>email\<close> finds
  the address under another identifier.
\<close>

definition email_taken :: "candidate \<Rightarrow> candidate list \<Rightarrow> bool" where
  "email_taken d xs = list_ex (\<lambda>x. c_email x = c_email d \<and> c_id x \<noteq> c_id d) xs"

definition Candidate_save :: "env \<Rightarrow> db \<Rightarrow> candidate \<Rightarrow> error + (db \<times> candidate)" where
  "Candidate_save e s d =
     (let d' = candidate_pre_save e d in
      if \<not> db_up s then Inl (MongoError ''connection'')
      else if email_taken d' (candidates s) then Inl (MongoError ''E11000 duplicate key'')
      else Inr (s\<lparr>candidates := put_candidate d' (candidates s)\<rparr>, d'))"

fun find_candidate :: "objid \<Rightarrow> candidate list \<Rightarrow> candidate option" where
  "find_candidate i [] = None"
| "find_candidate i (x # xs) = (if c_id x = i then Some x else find_candidate i xs)"

definition Candidate_findById :: "env \<Rightarrow> db \<Rightarrow> string \<Rightarrow> error + candidate option" where
  "Candidate_findById e s rid =
     (case castObjectId e rid of
        None \<Rightarrow> Inl (CastError ''Cast to ObjectId failed'')
      | Some i \<Rightarrow>
          if \<not> db_up s then Inl (MongoError ''connection'')
          else Inr (find_candidate i (candidates s)))"

text \<open>\<^verbatim>\<open>GET /candidates/:id\<close>\<close>

definition get_candidate :: "env \<Rightarrow> db \<Rightarrow> string \<Rightarrow> response" where
  "get_candidate e s rid =
     (case Candidate_findById e s rid of
        Inr None \<Rightarrow> respond 404 (Message ''Candidate not found'')
      | Inr (Some c) \<Rightarrow> respond 200 (CandidateDoc c)
      | Inl err \<Rightarrow> respond 500 (MessageOf err))"

text \<open>
  \<^verbatim>\<open>GET /candidates/search\<close>: the documents matching one of four clauses, newest
  \<^verbatim>\<open>updatedAt\<close> first, at most ten, each without \<^verbatim>\<open>resumeFile\<close>. A pattern the
  store cannot compile, like a broken connection, rejects the query.
\<close>

definition candidate_matches :: "engine \<Rightarrow> regex \<Rightarrow> candidate \<Rightarrow> bool" where
  "candidate_matches g r c =
     (test g r (c_name c) \<or> test g r (c_email c) \<or> test g r (c_technology c) \<or>
      list_ex (test g r) (c_skills c))"

definition select_minus_resumeFile :: "candidate \<Rightarrow> candidate_lean" where
  "select_minus_resumeFile c = candidate_lean.truncate c"

definition Candidate_search :: "env \<Rightarrow> db \<Rightarrow> regex \<Rightarrow> error + candidate_lean list" where
  "Candidate_search e s r =
     (if \<not> db_up s then Inl (MongoError ''connection'')
      else if \<not> compiles (rx e) r then Inl (MongoError ''Regular expression is invalid'')
      else Inr (map select_minus_resumeFile
                  (take 10
                     (sort_key (\<lambda>c. - c_updatedAt c)
                        (filter (candidate_matches (rx e) r) (candidates s))))))"

definition search_candidates :: "env \<Rightarrow> db \<Rightarrow> string option \<Rightarrow> response" where
  "search_candidates e s q =
     (case q of
        None \<Rightarrow> respond 400 (Failure ''Search query is required'' None)
      | Some t \<Rightarrow>
          if t = [] then respond 400 (Failure ''Search query is required'' None)
          else (case Candidate_search e s (ci t) of
                  Inl err \<Rightarrow> respond 500 (Failure ''Error searching candidates'' (detail e err))
                | Inr cs \<Rightarrow> respond 200 (CandidateData cs)))"

section \<open>Hotlists: lookup\<close>

fun find_hotlist :: "objid \<Rightarrow> hotlist list \<Rightarrow> hotlist option" where
  "find_hotlist i [] = None"
| "find_hotlist i (x # xs) = (if h_id x = i then Some x else find_hotlist i xs)"

text \<open>
  \<^verbatim>\<open>populate('candidates')\<close> replaces each reference by the candidate it names; a
  reference to a candidate that is gone is dropped.
\<close>

definition populate :: "db \<Rightarrow> hotlist \<Rightarrow> populated_hotlist" where
  "populate s h =
     \<lparr>ph_id = h_id h, ph_name = h_name h, ph_description = h_description h,
      ph_candidates = List.map_filter (\<lambda>i. find_candidate i (candidates s)) (h_candidates h),
      ph_createdAt = h_createdAt h\<rparr>"

definition Hotlist_findById :: "env \<Rightarrow> db \<Rightarrow> string \<Rightarrow> error + populated_hotlist option" where
  "Hotlist_findById e s rid =
     (case castObjectId e rid of
        None \<Rightarrow> Inl (CastError ''Cast to ObjectId failed'')
      | Some i \<Rightarrow>
          if \<not> db_up s then Inl (MongoError ''connection'')
          else Inr (map_option (populate s) (find_hotlist i (hotlists s))))"

text \<open>\<^verbatim>\<open>GET /hotlist/:id\<close>\<close>

definition get_hotlist :: "env \<Rightarrow> db \<Rightarrow> string \<Rightarrow> response" where
  "get_hotlist e s rid =
     (case Hotlist_findById e s rid of
        Inr None \<Rightarrow> respond 404 (Message ''Hotlist not found'')
      | Inr (Some h) \<Rightarrow> respond 200 (HotlistDoc h)
      | Inl err \<Rightarrow> respond 500 (MessageOf err))"

section \<open>Resume upload\<close>

text \<open>
  The file part of a multipart request as the upload middleware sees it, and the
  \<^verbatim>\<open>req.file\<close> it leaves for the handler. Sizes are in bytes. The uploads directory
  is the set of paths that exist in it.
\<close>

record file_part =
  fp_fieldname :: string
  fp_originalname :: string
  fp_mimetype :: string
  fp_size :: int

record req_file =
  rq_filename :: string
  rq_path :: string
  rq_mimetype :: string

type_synonym files = "string set"

definition uploadDir :: string where
  "uploadDir = ''uploads''"

definition fileSize :: int where
  "fileSize = 5 * 1024 * 1024"

text \<open>The \<^verbatim>\<open>fileFilter\<close> callback: an error, or whether to keep the file.\<close>

definition fileFilter :: "file_part \<Rightarrow> error + bool" where
  "fileFilter f =
     (if fp_fieldname f = ''resumeFile''
      then (if fp_mimetype f = ''application/pdf'' \<or>
               fp_mimetype f = ''application/msword'' \<or>
               fp_mimetype f =
                 ''application/vnd.openxmlformats-officedocument.wordprocessingml.document''
            then Inr True
            else Inl (PlainError ''Invalid file type! Only PDF and DOC files are allowed.''))
      else Inr True)"

text \<open>\<^verbatim>\<open>Date.now() + '-' + file.originalname\<close>, stored under the uploads directory.\<close>

function digits :: "int \<Rightarrow> string" where
  "digits n = (if n < 10 then [char_of (48 + n)] else digits (n div 10) @ [char_of (48 + n mod 10)])"
  by pat_completeness auto
termination
  by (relation "measure nat") auto

definition numberToString :: "int \<Rightarrow> string" where
  "numberToString n = (if n < 0 then CHR ''-'' # digits (- n) else digits n)"

definition storage_filename :: "env \<Rightarrow> file_part \<Rightarrow> string" where
  "storage_filename e f = numberToString (now e) @ ''-'' @ fp_originalname f"

definition storage_path :: "env \<Rightarrow> file_part \<Rightarrow> string" where
  "storage_path e f = uploadDir @ ''/'' @ storage_filename e f"

text \<open>
  \<^verbatim>\<open>fs.unlink(path, callback)\<close>: the path is gone afterwards unless the file system
  refuses, in which case the callback receives the error.
\<close>

definition unlink :: "env \<Rightarrow> string \<Rightarrow> files \<Rightarrow> files" where
  "unlink e p fs = (if unlink_ok e p then fs - {p} else fs)"

text \<open>
  \<^verbatim>\<open>upload.single(field)\<close> with disk storage, the file filter and the size limit.
  A file part under another field name is refused before the filter is asked. A
  file the filter refuses is never written. A file longer than the limit (or,
  for some parsers, as long as the limit) is cut off while it is being written;
  the middleware then removes what it wrote and passes the error on. The result
  is the error given to \<^verbatim>\<open>next\<close>, or \<^verbatim>\<open>req.file\<close>.
\<close>

definition upload_single ::
  "env \<Rightarrow> string \<Rightarrow> files \<Rightarrow> file_part option \<Rightarrow> files \<times> (error + req_file option)" where
  "upload_single e field fs part =
     (case part of
        None \<Rightarrow> (fs, Inr None)
      | Some f \<Rightarrow>
          if fp_fieldname f \<noteq> field then (fs, Inl (MulterError ''Unexpected field''))
          else (case fileFilter f of
                  Inl err \<Rightarrow> (fs, Inl err)
                | Inr False \<Rightarrow> (fs, Inr None)
                | Inr True \<Rightarrow>
                    if fileSize < fp_size f \<or> (fp_size f = fileSize \<and> rejects_at_limit e)
                    then (unlink e (storage_path e f) (insert (storage_path e f) fs),
                          Inl (MulterError ''File too large''))
                    else (insert (storage_path e f) fs,
                          Inr (Some \<lparr>rq_filename = storage_filename e f,
                                     rq_path = storage_path e f,
                                     rq_mimetype = fp_mimetype f\<rparr>))))"

text \<open>
  The application registers no error-handling middleware, so an error given to
  \<^verbatim>\<open>next\<close> reaches the framework's default handler: the status is the error's own
  when it has one between 400 and 599, and 500 otherwise.
\<close>

definition default_error_handler :: "error \<Rightarrow> response" where
  "default_error_handler err =
     respond (case err_status err of
                None \<Rightarrow> 500
              | Some c \<Rightarrow> if 400 \<le> c \<and> c < 600 then c else 500)
             (ErrorPage err)"

text \<open>The text fields of the multipart body of \<^verbatim>\<open>POST /candidate/with-resume\<close>.\<close>

datatype skills_input = NoSkills | SkillsStr string | SkillsArr "string list"

record resume_body =
  rb_name :: "string option"
  rb_email :: "string option"
  rb_yearsOfExp :: "string option"
  rb_technology :: "string option"
  rb_skills :: skills_input
  rb_experience :: "string option"
  rb_avatar :: "string option"
  rb_status :: "string option"

text \<open>
  \<^verbatim>\<open>typeof skills === 'string' ? skills.split(',').map(...).filter(Boolean) : skills || undefined\<close>
\<close>

fun skillsArray :: "skills_input \<Rightarrow> string list option" where
  "skillsArray (SkillsStr s) = Some (skillsArray_create s)"
| "skillsArray (SkillsArr xs) = Some xs"
| "skillsArray NoSkills = None"

text \<open>\<^verbatim>\<open>x ? Number(x) : undefined\<close>\<close>

definition number_field :: "env \<Rightarrow> string option \<Rightarrow> number_input" where
  "number_field e x =
     (if truthy x
      then (case Option.bind x (toNumber e) of None \<Rightarrow> NaN | Some n \<Rightarrow> Num n)
      else NoNumber)"

record world =
  store :: db
  uploads :: files

text \<open>The argument the handler gives to \<^verbatim>\<open>new Candidate({...})\<close>.\<close>

definition candidate_input_of ::
  "env \<Rightarrow> resume_body \<Rightarrow> req_file option \<Rightarrow> candidate_input" where
  "candidate_input_of e b file =
     \<lparr>ci_name = rb_name b,
      ci_email = rb_email b,
      ci_yearsOfExp = number_field e (rb_yearsOfExp b),
      ci_technology = rb_technology b,
      ci_skills = skillsArray (rb_skills b),
      ci_experience = number_field e (rb_experience b),
      ci_avatar = rb_avatar b,
      ci_status = rb_status b,
      ci_resumeFile =
        map_option (\<lambda>f. \<lparr>rf_filename = Some (rq_filename f),
                          rf_path = Some (rq_path f),
                          rf_mimetype = Some (rq_mimetype f)\<rparr>) file\<rparr>"

text \<open>
  \<^verbatim>\<open>new Candidate(i).save()\<close>: the save fails with a ValidationError when the
  document does not pass the schema, and otherwise as the write fails.
\<close>

definition Candidate_create :: "env \<Rightarrow> db \<Rightarrow> candidate_input \<Rightarrow> error + (db \<times> candidate)" where
  "Candidate_create e s i =
     (if Candidate_valid i then Candidate_save e s (new_Candidate e i)
      else Inl (ValidationError ''Candidate validation failed''))"

text \<open>
  What a request leaves behind. \<^verbatim>\<open>fs.unlink(path, callback)\<close> only starts the
  removal: the handler goes on to send the response without waiting for the
  callback. So the outcome is the world as the handler has left it when the
  response is sent, the response, and the paths whose unlink is then in flight.
  \<open>settle\<close> is the world once the callbacks of those unlinks have run.
\<close>

record outcome =
  at_response :: world
  sent :: response
  unlinking :: "string list"

definition settle :: "env \<Rightarrow> outcome \<Rightarrow> world" where
  "settle e out =
     fold (\<lambda>p w. w\<lparr>uploads := unlink e p (uploads w)\<rparr>) (unlinking out) (at_response out)"

text \<open>
  The handler of \<^verbatim>\<open>POST /candidate/with-resume\<close>, entered after the upload
  middleware. Whatever makes \<^verbatim>\<open>save()\<close> throw, the \<^verbatim>\<open>catch\<close> block starts the
  unlink of the uploaded file if there is one, then answers 400.
\<close>

definition candidate_with_resume ::
  "env \<Rightarrow> world \<Rightarrow> resume_body \<Rightarrow> req_file option \<Rightarrow> outcome" where
  "candidate_with_resume e w b file =
     (case Candidate_create e (store w) (candidate_input_of e b file) of
        Inr (s', c) \<Rightarrow>
          \<lparr>at_response = w\<lparr>store := s'\<rparr>, sent = respond 201 (CandidateDoc c), unlinking = []\<rparr>
      | Inl err \<Rightarrow>
          \<lparr>at_response = w, sent = respond 400 (MessageOf err),
           unlinking = (case file of Some f \<Rightarrow> [rq_path f] | None \<Rightarrow> [])\<rparr>)"

text \<open>
  The route: the upload middleware, then the handler or the default error
  handler. The middleware waits for its own removals before it passes an error
  on.
\<close>

record resume_request =
  rr_body :: resume_body
  rr_part :: "file_part option"

definition post_candidate_with_resume :: "env \<Rightarrow> world \<Rightarrow> resume_request \<Rightarrow> outcome" where
  "post_candidate_with_resume e w r =
     (case upload_single e ''resumeFile'' (uploads w) (rr_part r) of
        (fs, Inl err) \<Rightarrow>
          \<lparr>at_response = w\<lparr>uploads := fs\<rparr>, sent = default_error_handler err, unlinking = []\<rparr>
      | (fs, Inr file) \<Rightarrow> candidate_with_resume e (w\<lparr>uploads := fs\<rparr>) (rr_body r) file)"

section \<open>Concurrent counter requests\<close>

text \<open>
  The operations a request can ask of the jobs collection. The store carries
  out one operation at a time and each one as a whole: \<open>IncById\<close> is
  \<^verbatim>\<open>findByIdAndUpdate(id, { $inc: { field: 1 } }, { new: true })\<close>, the only one
  the two counter routes use; \<open>FindById\<close> and \<open>Replace\<close> are a read and a
  whole-document write.
\<close>

datatype store_op = IncById objid counter | FindById objid | Replace job

fun exec :: "db \<Rightarrow> store_op \<Rightarrow> db \<times> (error + job option)" where
  "exec s (IncById i c) =
     (if \<not> db_up s then (s, Inl (MongoError ''connection''))
      else (s\<lparr>jobs := update_job i (inc c) (jobs s)\<rparr>,
            Inr (map_option (inc c) (find_job i (jobs s)))))"
| "exec s (FindById i) =
     (if \<not> db_up s then (s, Inl (MongoError ''connection''))
      else (s, Inr (find_job i (jobs s))))"
| "exec s (Replace j) =
     (if \<not> db_up s then (s, Inl (MongoError ''connection''))
      else (s\<lparr>jobs := update_job (j_id j) (\<lambda>old. j) (jobs s)\<rparr>, Inr (Some j)))"

text \<open>
  A request in progress: it has answered, or it awaits the result of a store
  operation and continues from it. Between two operations of one request the
  store may serve operations of others.
\<close>

datatype task = Done response | Await store_op "error + job option \<Rightarrow> task"

text \<open>
  The two counter routes as tasks: the identifier is cast, then a single
  \<open>IncById\<close> is awaited, then the response is sent.
\<close>

definition get_job_task :: "env \<Rightarrow> string \<Rightarrow> task" where
  "get_job_task e rid =
     (case castObjectId e rid of
        None \<Rightarrow> Done (respond 400 (Failure ''Invalid job ID format'' None))
      | Some i \<Rightarrow>
          Await (IncById i Views)
            (\<lambda>res. Done (case res of
                            Inr None \<Rightarrow> respond 404 (Failure ''Job not found'' None)
                          | Inr (Some j) \<Rightarrow> respond 200 (JobData j)
                          | Inl err \<Rightarrow>
                              if err_name err = ''CastError''
                              then respond 400 (Failure ''Invalid job ID format'' None)
                              else respond 500
                                     (Failure ''Error fetching job details'' (detail e err)))))"

definition apply_job_task :: "env \<Rightarrow> string \<Rightarrow> task" where
  "apply_job_task e rid =
     (case castObjectId e rid of
        None \<Rightarrow> Done (respond 500 (MessageOf (CastError ''Cast to ObjectId failed'')))
      | Some i \<Rightarrow>
          Await (IncById i Applications)
            (\<lambda>res. Done (case res of
                            Inr None \<Rightarrow> respond 404 (Message ''Job not found'')
                          | Inr (Some j) \<Rightarrow> respond 200 (JobDoc j)
                          | Inl err \<Rightarrow> respond 500 (MessageOf err))))"

datatype request = GetJob string | ApplyJob string

fun serve :: "env \<Rightarrow> db \<Rightarrow> request \<Rightarrow> db \<times> response" where
  "serve e s (GetJob rid) = get_job e s rid"
| "serve e s (ApplyJob rid) = apply_job e s rid"

fun task_of :: "env \<Rightarrow> request \<Rightarrow> task" where
  "task_of e (GetJob rid) = get_job_task e rid"
| "task_of e (ApplyJob rid) = apply_job_task e rid"

fun addresses :: "env \<Rightarrow> objid \<Rightarrow> counter \<Rightarrow> request \<Rightarrow> bool" where
  "addresses e i Views (GetJob rid) = (castObjectId e rid = Some i)"
| "addresses e i Applications (ApplyJob rid) = (castObjectId e rid = Some i)"
| "addresses e i c r = False"

text \<open>
  Not in the routes, for contrast: a detail fetch that reads the job and then
  writes it back with the counter it computed.
\<close>

definition read_then_write_task :: "objid \<Rightarrow> task" where
  "read_then_write_task i =
     Await (FindById i)
       (\<lambda>res. case res of
                 Inr (Some j) \<Rightarrow>
                   Await (Replace (inc Views j)) (\<lambda>res'. Done (respond 200 (JobData (inc Views j))))
               | Inr None \<Rightarrow> Done (respond 404 (Failure ''Job not found'' None))
               | Inl err \<Rightarrow> Done (respond 500 (Failure ''Error fetching job details'' None)))"

text \<open>
  Concurrent execution: a pool of tasks and a schedule, the list of the pool
  positions whose next operation the store serves, in the order it serves them.
  Every interleaving of the requests' operations is some schedule.
\<close>

fun advance :: "db \<Rightarrow> task \<Rightarrow> db \<times> task" where
  "advance s (Done r) = (s, Done r)"
| "advance s (Await op k) = (fst (exec s op), k (snd (exec s op)))"

fun step :: "db \<times> task list \<Rightarrow> nat \<Rightarrow> db \<times> task list" where
  "step (s, ts) n =
     (if n < length ts then (fst (advance s (ts ! n)), ts[n := snd (advance s (ts ! n))])
      else (s, ts))"

definition run :: "nat list \<Rightarrow> db \<times> task list \<Rightarrow> db \<times> task list" where
  "run schedule st = foldl step st schedule"

fun finished :: "task \<Rightarrow> bool" where
  "finished (Done r) = True"
| "finished (Await op k) = False"

text \<open>Whether a task is about to increment the given counter of the given job.\<close>

fun awaits :: "objid \<Rightarrow> counter \<Rightarrow> task \<Rightarrow> bool" where
  "awaits i c (Await (IncById k c') cont) = (k = i \<and> c' = c)"
| "awaits i c t = False"

text \<open>The shape of the tasks of the two routes: one increment, then the answer.\<close>

definition one_increment :: "task \<Rightarrow> bool" where
  "one_increment t =
     (finished t \<or> (\<exists>k c cont. t = Await (IncById k c) cont \<and> (\<forall>res. finished (cont res))))"

section \<open>The search pipeline on projected documents\<close>

text \<open>The search clauses read only fields that the projection keeps.\<close>

definition lean_matches :: "engine \<Rightarrow> regex \<Rightarrow> candidate_lean \<Rightarrow> bool" where
  "lean_matches g r c =
     (test g r (c_name c) \<or> test g r (c_email c) \<or> test g r (c_technology c) \<or>
      list_ex (test g r) (c_skills c))"

section \<open>Sample data\<close>

text \<open>
  A request environment, one job, one candidate and a few requests to compute
  with. In the sample environment one date string and one number string parse.
\<close>

definition no_params :: job_params where
  "no_params = \<lparr>p_status = None, p_jobType = None, p_experienceLevel = None,
     p_primaryTechnology = None, p_remote = None, p_requiredSkills = None,
     p_location = None, p_search = None\<rparr>"

definition sample_env :: env where
  "sample_env =
     \<lparr>now = 1700000000000,
      newObjectId = ''65a000000000000000000009'',
      castObjectId = hex24,
      parseDate = (\<lambda>s. if s = ''2030-01-01'' then Some 1893456000000 else None),
      toNumber = (\<lambda>s. if s = ''5'' then Some 5 else None),
      rx = wildcard_engine,
      development = False,
      unlink_ok = (\<lambda>p. True),
      rejects_at_limit = True\<rparr>"

definition acme_job :: job where
  "acme_job =
     \<lparr>j_id = ''65a000000000000000000001'',
      j_title = ''Backend Engineer'',
      j_company = \<lparr>co_name = ''Acme Corp'', co_website = None, co_logo = None\<rparr>,
      j_description = ''Build and run services'',
      j_requirements = [],
      j_responsibilities = [],
      j_jobType = ''Full-time'',
      j_experienceLevel = ''Senior Level'',
      j_location = ''Springfield, IL'',
      j_remote = True,
      j_salary = \<lparr>sal_min = 100000, sal_max = 150000, sal_currency = ''USD'',
                   sal_period = ''yearly''\<rparr>,
      j_primaryTechnology = ''Go'',
      j_requiredSkills = [''Golang'', ''Rust Developer''],
      j_benefits = [],
      j_status = ''active'',
      j_applicationDeadline = 1893456000000,
      j_postedDate = 1600000000000,
      j_updatedAt = 1600000000000,
      j_views = 7,
      j_applications = 2\<rparr>"


definition ada :: candidate where
  "ada =
     \<lparr>c_id = ''65a000000000000000000002'',
      c_name = ''Ada'',
      c_email = ''ada@example.com'',
      c_yearsOfExp = 5,
      c_technology = ''Go'',
      c_skills = [''Golang''],
      c_experience = 5,
      c_avatar = ''https://example.com/default-avatar.jpg'',
      c_status = ''active'',
      c_createdAt = 1600000000000,
      c_updatedAt = 1600000000000,
      c_resumeFile = \<lparr>rf_filename = Some ''1600000000000-ada.pdf'',
                        rf_path = Some ''uploads/1600000000000-ada.pdf'',
                        rf_mimetype = Some ''application/pdf''\<rparr>\<rparr>"

definition sample_db :: db where
  "sample_db = \<lparr>db_up = True, jobs = [acme_job], candidates = [ada], hotlists = []\<rparr>"

definition sample_world :: world where
  "sample_world = \<lparr>store = sample_db, uploads = {''uploads/1600000000000-ada.pdf''}\<rparr>"

definition no_fields :: resume_body where
  "no_fields = \<lparr>rb_name = None, rb_email = None, rb_yearsOfExp = None, rb_technology = None,
                 rb_skills = NoSkills, rb_experience = None, rb_avatar = None, rb_status = None\<rparr>"

definition pdf_part :: file_part where
  "pdf_part = \<lparr>fp_fieldname = ''resumeFile'', fp_originalname = ''cv.pdf'',
                fp_mimetype = ''application/pdf'', fp_size = 1024\<rparr>"

definition no_email_request :: resume_request where
  "no_email_request = \<lparr>rr_body = no_fields\<lparr>rb_name := Some ''Bob''\<rparr>, rr_part = Some pdf_part\<rparr>"

definition png_request :: resume_request where
  "png_request =
     \<lparr>rr_body = no_fields\<lparr>rb_name := Some ''Bob'', rb_email := Some ''bob@example.com''\<rparr>,
      rr_part = Some (pdf_part\<lparr>fp_originalname := ''me.png'', fp_mimetype := ''image/png''\<rparr>)\<rparr>"

definition big_request :: resume_request where
  "big_request =
     \<lparr>rr_body = no_fields\<lparr>rb_name := Some ''Bob'', rb_email := Some ''bob@example.com''\<rparr>,
      rr_part = Some (pdf_part\<lparr>fp_size := 5 * 1024 * 1024 + 1\<rparr>)\<rparr>"

definition acme_id :: string where
  "acme_id = ''65a000000000000000000001''"

definition full_body :: job_body where
  "full_body =
     \<lparr>b_title = Some ''Backend Engineer'',
      b_company = Some \<lparr>cb_name = Some ''Acme Corp'', cb_website = None, cb_logo = None\<rparr>,
      b_description = Some ''Build and run services'',
      b_requirements = Arr [],
      b_responsibilities = Str ''design, review'',
      b_jobType = Some ''Full-time'',
      b_experienceLevel = Some ''Senior Level'',
      b_location = Some ''Springfield, IL'',
      b_remote = None,
      b_salary = Some \<lparr>sb_min = Some 100000, sb_max = Some 150000, sb_currency = None,
                        sb_period = None\<rparr>,
      b_primaryTechnology = Some ''Go'',
      b_requiredSkills = Arr [''Golang''],
      b_benefits = Arr [],
      b_status = None,
      b_applicationDeadline = Some ''2030-01-01''\<rparr>"

text \<open>An environment in which the file system refuses every unlink.\<close>

definition stuck_env :: env where
  "stuck_env = sample_env\<lparr>unlink_ok := (\<lambda>p. False)\<rparr>"

text \<open>The sample store with another resume attached to the same candidate.\<close>

definition ada_other_resume :: candidate where
  "ada_other_resume =
     ada\<lparr>c_resumeFile := \<lparr>rf_filename = Some ''1650000000000-secret.docx'',
                            rf_path = Some ''uploads/1650000000000-secret.docx'',
                            rf_mimetype = Some ''application/msword''\<rparr>\<rparr>"

definition other_db :: db where
  "other_db = sample_db\<lparr>candidates := [ada_other_resume]\<rparr>"


text \<open>Four requests against the sample job, and an order in which the store serves them.\<close>

definition sample_requests :: "request list" where
  "sample_requests = [GetJob acme_id, ApplyJob acme_id, GetJob acme_id, GetJob ''123'']"

definition sample_schedule :: "nat list" where
  "sample_schedule = [2, 0, 3, 1]"

section \<open>Tokenisation (C3)\<close>

lemma skillsArray_create_filter:
  "skillsArray_create s = filter (\<lambda>t. t \<noteq> []) (skillsArray_filter s)"
  by (simp add: skillsArray_create_def skillsArray_filter_def)

lemma skillsArray_agree_iff:
  "skillsArray_create s = skillsArray_filter s \<longleftrightarrow> [] \<notin> set (skillsArray_filter s)"
  by (simp add: skillsArray_create_filter filter_id_conv) blast

text \<open>
  C3. The claim: the tokenisation used when a candidate is created with a resume
  and the one the listing filter applies to \<^verbatim>\<open>requiredSkills\<close> give the same
  tokens for every string, both discarding empty tokens. On the code they differ
  as soon as a token is empty: for \<^verbatim>\<open>cobol,\<close> the create path keeps one token, the
  filter keeps the empty token as well, builds a pattern from it, and the sample
  job, none of whose skills contains \<^verbatim>\<open>cobol\<close>, is matched.
\<close>

theorem C3_tokenisations_differ:
  "skillsArray_create ''cobol,'' = [''cobol''] \<and>
   skillsArray_filter ''cobol,'' = [''cobol'', ''''] \<and>
   build_query wildcard_engine (no_params\<lparr>p_requiredSkills := Some ''cobol,''\<rparr>) =
     Inr (empty_query\<lparr>q_requiredSkills := Some [ci ''cobol'', ci '''']\<rparr>) \<and>
   job_matches wildcard_engine
     (empty_query\<lparr>q_requiredSkills := Some [ci ''cobol'', ci '''']\<rparr>) acme_job \<and>
   build_query wildcard_engine (no_params\<lparr>p_requiredSkills := Some ''cobol''\<rparr>) =
     Inr (empty_query\<lparr>q_requiredSkills := Some [ci ''cobol'']\<rparr>) \<and>
   \<not> job_matches wildcard_engine
     (empty_query\<lparr>q_requiredSkills := Some [ci ''cobol'']\<rparr>) acme_job"
  by code_simp

section \<open>Empty parameters of the job listing (C4)\<close>

lemma build_query_unfold:
  "build_query g p =
     (case p_requiredSkills p of
        None \<Rightarrow> Inr (\<lparr>q_status = (if truthy (p_status p) then p_status p else None),
         q_jobType = (if truthy (p_jobType p) then p_jobType p else None),
         q_experienceLevel =
           (if truthy (p_experienceLevel p) then p_experienceLevel p else None),
         q_primaryTechnology =
           (if truthy (p_primaryTechnology p) then p_primaryTechnology p else None),
         q_remote = map_option (\<lambda>r. r = ''true'') (p_remote p),
         q_location = (if truthy (p_location p) then map_option ci (p_location p) else None),
         q_or = (if truthy (p_search p)
                 then map_option
                        (\<lambda>s. [(Title, ci s), (Description, ci s), (CompanyName, ci s)])
                        (p_search p)
                 else None),
         q_requiredSkills = None\<rparr>)
      | Some v \<Rightarrow>
          if v \<noteq> [] \<and> \<not> list_all (\<lambda>skill. compiles g (ci skill)) (skillsArray_filter v)
          then Inl (SyntaxError ''Invalid regular expression'')
          else Inr (\<lparr>q_status = (if truthy (p_status p) then p_status p else None),
         q_jobType = (if truthy (p_jobType p) then p_jobType p else None),
         q_experienceLevel =
           (if truthy (p_experienceLevel p) then p_experienceLevel p else None),
         q_primaryTechnology =
           (if truthy (p_primaryTechnology p) then p_primaryTechnology p else None),
         q_remote = map_option (\<lambda>r. r = ''true'') (p_remote p),
         q_location = (if truthy (p_location p) then map_option ci (p_location p) else None),
         q_or = (if truthy (p_search p)
                 then map_option
                        (\<lambda>s. [(Title, ci s), (Description, ci s), (CompanyName, ci s)])
                        (p_search p)
                 else None),
         q_requiredSkills = (if v = [] then None else Some (map ci (skillsArray_filter v)))\<rparr>))"
proof -
  have remote: "(case p_remote p of None \<Rightarrow> None | Some r \<Rightarrow> Some (r = ''true'')) =
                map_option (\<lambda>r. r = ''true'') (p_remote p)"
    by (cases "p_remote p") simp_all
  show ?thesis
    unfolding build_query_def Let_def remote
    by (cases "p_requiredSkills p") simp_all
qed

text \<open>
  C4, as stated, at \<^verbatim>\<open>remote\<close>: the claim treats an empty \<^verbatim>\<open>remote\<close> like an
  omitted one. The route tests \<^verbatim>\<open>remote !== undefined\<close>, so the empty string
  constrains the field to \<^verbatim>\<open>false\<close>.
\<close>

theorem C4_empty_remote_counterexample:
  "build_query wildcard_engine (no_params\<lparr>p_remote := Some ''''\<rparr>) =
     Inr (empty_query\<lparr>q_remote := Some False\<rparr>) \<and>
   build_query wildcard_engine (no_params\<lparr>p_remote := None\<rparr>) = Inr empty_query \<and>
   build_query wildcard_engine (no_params\<lparr>p_remote := Some ''''\<rparr>) \<noteq>
     build_query wildcard_engine (no_params\<lparr>p_remote := None\<rparr>)"
  by (simp add: build_query_unfold no_params_def truthy_def empty_query_def)

text \<open>
  C4, amended. For each of status, jobType, experienceLevel, primaryTechnology,
  location, search and requiredSkills, the empty string gives the same result as
  omitting the parameter, and no pattern is built from it: the result for an
  empty location or search is the result for any other value with that key
  removed, and an empty requiredSkills always yields a query without that key.
  For remote only omission leaves the field unconstrained: every supplied value,
  the empty string included, constrains it, to true for the string \<^verbatim>\<open>true\<close> and
  to false otherwise, and changes nothing else.
\<close>

theorem C4_empty_parameter_absent:
  "build_query g (p\<lparr>p_status := Some ''''\<rparr>) = build_query g (p\<lparr>p_status := None\<rparr>) \<and>
   build_query g (p\<lparr>p_jobType := Some ''''\<rparr>) = build_query g (p\<lparr>p_jobType := None\<rparr>) \<and>
   build_query g (p\<lparr>p_experienceLevel := Some ''''\<rparr>) =
     build_query g (p\<lparr>p_experienceLevel := None\<rparr>) \<and>
   build_query g (p\<lparr>p_primaryTechnology := Some ''''\<rparr>) =
     build_query g (p\<lparr>p_primaryTechnology := None\<rparr>) \<and>
   build_query g (p\<lparr>p_location := Some ''''\<rparr>) = build_query g (p\<lparr>p_location := None\<rparr>) \<and>
   build_query g (p\<lparr>p_search := Some ''''\<rparr>) = build_query g (p\<lparr>p_search := None\<rparr>) \<and>
   build_query g (p\<lparr>p_requiredSkills := Some ''''\<rparr>) =
     build_query g (p\<lparr>p_requiredSkills := None\<rparr>) \<and>
   build_query g (p\<lparr>p_location := Some ''''\<rparr>) =
     map_sum id (\<lambda>q. q\<lparr>q_location := None\<rparr>) (build_query g p) \<and>
   build_query g (p\<lparr>p_search := Some ''''\<rparr>) =
     map_sum id (\<lambda>q. q\<lparr>q_or := None\<rparr>) (build_query g p) \<and>
   (\<exists>q. build_query g (p\<lparr>p_requiredSkills := Some ''''\<rparr>) = Inr q \<and>
        q_requiredSkills q = None) \<and>
   build_query g (p\<lparr>p_remote := None\<rparr>) =
     map_sum id (\<lambda>q. q\<lparr>q_remote := None\<rparr>) (build_query g p) \<and>
   build_query g (p\<lparr>p_remote := Some ''true''\<rparr>) =
     map_sum id (\<lambda>q. q\<lparr>q_remote := Some True\<rparr>) (build_query g p) \<and>
   build_query g (p\<lparr>p_remote := Some r\<rparr>) =
     map_sum id (\<lambda>q. q\<lparr>q_remote := Some (r = ''true'')\<rparr>) (build_query g p)"
proof (cases "p_requiredSkills p")
  case None
  then show ?thesis
    by (simp add: build_query_unfold truthy_def)
next
  case (Some v)
  then show ?thesis
    by (simp add: build_query_unfold truthy_def)
qed

section \<open>The search clause composes with the other filters (C5)\<close>




lemma matchesAt_plain: "CHR ''.'' \<notin> set p \<Longrightarrow> matchesAt p s = startsWith p s"
  by (induction p s rule: matchesAt.induct) auto

lemma matchesSomewhere_plain: "CHR ''.'' \<notin> set p \<Longrightarrow> matchesSomewhere p s = contains_str p s"
  by (induction s) (simp_all add: matchesAt_plain)

lemma toLower_dot: "toLower c = CHR ''.'' \<longleftrightarrow> c = CHR ''.''"
proof (cases "65 \<le> (of_char c :: nat) \<and> (of_char c :: nat) \<le> 90")
  case True
  then have "(of_char (char_of ((of_char c :: nat) + 32)) :: nat) \<noteq> of_char CHR ''.''"
    by simp
  then have "char_of ((of_char c :: nat) + 32) \<noteq> CHR ''.''"
    by metis
  moreover have "c \<noteq> CHR ''.''"
    using True by auto
  ultimately show ?thesis
    using True by (simp add: toLower_def Let_def)
next
  case False
  then show ?thesis
    by (auto simp add: toLower_def Let_def)
qed

text \<open>On a search term without metacharacters the sample engine tests containment.\<close>

lemma wildcard_engine_plain:
  assumes "CHR ''.'' \<notin> set t"
  shows "test wildcard_engine (ci t) s = contains_ci t s"
proof -
  have "CHR ''.'' \<notin> set (map toLower t)"
  proof
    assume "CHR ''.'' \<in> set (map toLower t)"
    then obtain x where x: "x \<in> set t" and "toLower x = CHR ''.''"
      by auto
    then have "x = CHR ''.''"
      by (simp add: toLower_dot)
    with x assms show False
      by simp
  qed
  then show ?thesis
    by (simp add: wildcard_engine_def ci_def contains_ci_def matchesSomewhere_plain)
qed

lemma invalid_skill_pattern:
  "build_query wildcard_engine (no_params\<lparr>p_requiredSkills := Some ''go,(''\<rparr>) =
     Inl (SyntaxError ''Invalid regular expression'')"
  by code_simp

section \<open>A missing sequence field fails job creation (C9)\<close>

lemma to_sequence_cases:
  "(\<exists>m. to_sequence x = Inl (TypeError m)) \<or> (\<exists>xs. to_sequence x = Inr xs)"
  by (cases x) simp_all

text \<open>
  C9. If the body of \<^verbatim>\<open>POST /jobs\<close> omits requirements, responsibilities,
  requiredSkills or benefits, the response is 400 with the message of a
  TypeError and the store is unchanged: no job is created with the default.
\<close>

theorem C9_missing_sequence_field:
  assumes "b_requirements b = Absent \<or> b_responsibilities b = Absent \<or>
           b_requiredSkills b = Absent \<or> b_benefits b = Absent"
  shows "res_status (snd (post_jobs e s b)) = 400 \<and> fst (post_jobs e s b) = s \<and>
         (\<exists>m. res_body (snd (post_jobs e s b)) = MessageOf (TypeError m))"
  using assms to_sequence_cases[of "b_requirements b"] to_sequence_cases[of "b_responsibilities b"]
    to_sequence_cases[of "b_requiredSkills b"] to_sequence_cases[of "b_benefits b"]
  by (auto simp add: post_jobs_def respond_def)

text \<open>
  C9 at a concrete input: a body that creates a job (201) is refused with 400
  once \<^verbatim>\<open>benefits\<close> is left out.
\<close>

theorem C9_missing_benefits_witness:
  "b_benefits (full_body\<lparr>b_benefits := Absent\<rparr>) = Absent \<and>
   res_status (snd (post_jobs sample_env sample_db (full_body\<lparr>b_benefits := Absent\<rparr>))) = 400 \<and>
   fst (post_jobs sample_env sample_db (full_body\<lparr>b_benefits := Absent\<rparr>)) = sample_db \<and>
   res_status (snd (post_jobs sample_env sample_db full_body)) = 201"
proof -
  have a: "b_benefits (full_body\<lparr>b_benefits := Absent\<rparr>) = Absent"
    by simp
  have created: "res_status (snd (post_jobs sample_env sample_db full_body)) = 201"
    by code_simp
  from C9_missing_sequence_field[of "full_body\<lparr>b_benefits := Absent\<rparr>" sample_env sample_db] a
  have "res_status (snd (post_jobs sample_env sample_db (full_body\<lparr>b_benefits := Absent\<rparr>))) = 400 \<and>
        fst (post_jobs sample_env sample_db (full_body\<lparr>b_benefits := Absent\<rparr>)) = sample_db"
    by blast
  with a created show ?thesis
    by blast
qed

section \<open>Counter increments under concurrency (C2)\<close>

lemma j_id_inc: "j_id (inc c j) = j_id j"
  by (cases c) simp_all

lemma find_job_update_job:
  "find_job i (update_job k (inc c) xs) =
     (if i = k then map_option (inc c) (find_job i xs) else find_job i xs)"
  by (induction xs) (auto simp add: j_id_inc)

text \<open>Served alone, the task of a request is the route.\<close>

lemma advance_task_of: "advance s (task_of e r) = (fst (serve e s r), Done (snd (serve e s r)))"
proof (cases r)
  case (GetJob rid)
  then show ?thesis
    by (cases "castObjectId e rid"; cases "find_job (the (castObjectId e rid)) (jobs s)")
       (simp_all add: get_job_task_def get_job_def Job_findByIdAndUpdate_def)
next
  case (ApplyJob rid)
  then show ?thesis
    by (cases "castObjectId e rid"; cases "find_job (the (castObjectId e rid)) (jobs s)")
       (simp_all add: apply_job_task_def apply_job_def Job_findByIdAndUpdate_def)
qed

lemma one_increment_task_of: "one_increment (task_of e r)"
  by (cases r; cases "castObjectId e (case r of GetJob x \<Rightarrow> x | ApplyJob x \<Rightarrow> x)")
     (simp_all add: one_increment_def get_job_task_def apply_job_task_def)

lemma awaits_task_of: "awaits i c (task_of e r) = addresses e i c r"
  by (cases r; cases c; cases "castObjectId e (case r of GetJob x \<Rightarrow> x | ApplyJob x \<Rightarrow> x)")
     (auto simp add: get_job_task_def apply_job_task_def)

lemma finished_not_awaits: "finished t \<Longrightarrow> \<not> awaits i c t"
  by (cases t) simp_all

lemma count_update:
  "n < length xs \<Longrightarrow>
   int (length (filter P (xs[n := x]))) =
     int (length (filter P xs)) - (if P (xs ! n) then 1 else 0) + (if P x then 1 else 0)"
proof (induction xs arbitrary: n)
  case Nil
  then show ?case by simp
next
  case (Cons y ys)
  show ?case
  proof (cases n)
    case 0
    then show ?thesis by simp
  next
    case (Suc m)
    with Cons.prems have "m < length ys" by simp
    from Cons.IH[OF this] show ?thesis using Suc by (auto split: if_splits)
  qed
qed

text \<open>
  What one scheduling step preserves: the store stays usable, every task keeps the
  shape of a route's task, and the counter of a stored job plus the number of
  increments of it still awaited stays the same.
\<close>

lemma step_invariant:
  assumes up: "db_up s" and shape: "list_all one_increment ts"
    and found: "find_job i (jobs s) = Some j"
  shows "db_up (fst (step (s, ts) n)) \<and> list_all one_increment (snd (step (s, ts) n)) \<and>
         (\<exists>j'. find_job i (jobs (fst (step (s, ts) n))) = Some j' \<and>
            j_views j' + int (length (filter (awaits i Views) (snd (step (s, ts) n)))) =
              j_views j + int (length (filter (awaits i Views) ts)) \<and>
            j_applications j' +
                int (length (filter (awaits i Applications) (snd (step (s, ts) n)))) =
              j_applications j + int (length (filter (awaits i Applications) ts)))"
proof (cases "n < length ts")
  case False
  then show ?thesis using assms by simp
next
  case True
  then have t: "one_increment (ts ! n)"
    using shape by (simp add: list_all_length)
  show ?thesis
  proof (cases "finished (ts ! n)")
    case fin: True
    then obtain r where r: "ts ! n = Done r"
      by (cases "ts ! n") simp_all
    then have "step (s, ts) n = (s, ts)"
      using True by (simp add: list_update_same_conv)
    then show ?thesis using assms by simp
  next
    case False
    with t obtain k c cont where
      tn: "ts ! n = Await (IncById k c) cont" and cont: "\<And>res. finished (cont res)"
      unfolding one_increment_def by blast
    let ?t' = "cont (Inr (map_option (inc c) (find_job k (jobs s))))"
    have stepped: "step (s, ts) n = (s\<lparr>jobs := update_job k (inc c) (jobs s)\<rparr>, ts[n := ?t'])"
      using True tn up by simp
    have fin': "finished ?t'" by (rule cont)
    have shape': "list_all one_increment (ts[n := ?t'])"
      using shape fin' True
      by (auto simp add: list_all_length nth_list_update one_increment_def)
    have count: "int (length (filter (awaits i c') (ts[n := ?t']))) =
                 int (length (filter (awaits i c') ts)) - (if k = i \<and> c = c' then 1 else 0)" for c'
      using count_update[OF True, of "awaits i c'" ?t'] tn finished_not_awaits[OF fin', of i c']
      by simp
    show ?thesis
    proof (cases "k = i")
      case False
      then show ?thesis
        using stepped up shape' found count by (simp add: find_job_update_job)
    next
      case ki: True
      show ?thesis
        using stepped up shape' found count ki
        by (cases c) (simp_all add: find_job_update_job)
    qed
  qed
qed

lemma run_invariant:
  assumes "db_up s" and "list_all one_increment ts" and "find_job i (jobs s) = Some j"
  shows "\<exists>j'. find_job i (jobs (fst (run schedule (s, ts)))) = Some j' \<and>
           j_views j' + int (length (filter (awaits i Views) (snd (run schedule (s, ts))))) =
             j_views j + int (length (filter (awaits i Views) ts)) \<and>
           j_applications j' +
               int (length (filter (awaits i Applications) (snd (run schedule (s, ts))))) =
             j_applications j + int (length (filter (awaits i Applications) ts))"
  using assms
proof (induction schedule arbitrary: s ts j)
  case Nil
  then show ?case by (simp add: run_def)
next
  case (Cons n ns)
  obtain s' ts' where st: "step (s, ts) n = (s', ts')"
    by (cases "step (s, ts) n")
  from step_invariant[OF Cons.prems, of n] st obtain j' where
    up': "db_up s'" and shape': "list_all one_increment ts'"
    and found': "find_job i (jobs s') = Some j'"
    and v: "j_views j' + int (length (filter (awaits i Views) ts')) =
            j_views j + int (length (filter (awaits i Views) ts))"
    and a: "j_applications j' + int (length (filter (awaits i Applications) ts')) =
            j_applications j + int (length (filter (awaits i Applications) ts))"
    by auto
  have unfold: "run (n # ns) (s, ts) = run ns (s', ts')"
    using st by (simp add: run_def)
  from Cons.IH[OF up' shape' found'] show ?case
    unfolding unfold using v a by auto
qed

lemma filter_awaits_task_of:
  "filter (awaits i c) (map (task_of e) rs) = map (task_of e) (filter (addresses e i c) rs)"
  by (induction rs) (simp_all add: awaits_task_of)

lemma no_awaits_when_finished: "list_all finished ts \<Longrightarrow> filter (awaits i c) ts = []"
  by (induction ts) (simp_all add: finished_not_awaits)

text \<open>
  C2. Each detail fetch and each apply request is a task with a single store
  operation, the \<^verbatim>\<open>$inc\<close> update. For a stored job, any pool of such requests
  (also for other or malformed identifiers) and any schedule that lets all of
  them answer, the job's \<^verbatim>\<open>views\<close> has grown by exactly the number of detail
  fetches that address it and its \<^verbatim>\<open>applications\<close> by exactly the number of apply
  requests that address it.
\<close>

theorem C2_concurrent_increments_exact:
  assumes "db_up s" and "find_job i (jobs s) = Some j"
    and "list_all finished (snd (run schedule (s, map (task_of e) rs)))"
  shows "\<exists>j'. find_job i (jobs (fst (run schedule (s, map (task_of e) rs)))) = Some j' \<and>
           j_views j' = j_views j + int (length (filter (addresses e i Views) rs)) \<and>
           j_applications j' =
             j_applications j + int (length (filter (addresses e i Applications) rs))"
proof -
  have shape: "list_all one_increment (map (task_of e) rs)"
    by (simp add: list_all_iff one_increment_task_of)
  from run_invariant[OF assms(1) shape assms(2), of schedule]
  show ?thesis
    by (simp add: no_awaits_when_finished[OF assms(3)] filter_awaits_task_of)
qed

text \<open>
  C2 at a concrete input: three detail fetches, one of them with a malformed
  identifier, and one apply request, served in the order of the sample schedule,
  take the sample job from 7 views and 2 applications to 9 and 3.
\<close>

theorem C2_concurrent_witness:
  "db_up sample_db \<and> find_job acme_id (jobs sample_db) = Some acme_job \<and>
   list_all finished
     (snd (run sample_schedule (sample_db, map (task_of sample_env) sample_requests))) \<and>
   (\<exists>j'. find_job acme_id
            (jobs (fst (run sample_schedule (sample_db, map (task_of sample_env) sample_requests))))
          = Some j' \<and> j_views j' = 9 \<and> j_applications j' = 3)"
proof -
  have up: "db_up sample_db" by (simp add: sample_db_def)
  have found: "find_job acme_id (jobs sample_db) = Some acme_job"
    by (simp add: sample_db_def acme_job_def acme_id_def)
  have fin: "list_all finished
     (snd (run sample_schedule (sample_db, map (task_of sample_env) sample_requests)))"
    by code_simp
  have v: "j_views acme_job + int (length (filter (addresses sample_env acme_id Views)
             sample_requests)) = 9"
    by code_simp
  have a: "j_applications acme_job + int (length (filter (addresses sample_env acme_id Applications)
             sample_requests)) = 3"
    by code_simp
  from C2_concurrent_increments_exact[OF up found fin] v a
  have "\<exists>j'. find_job acme_id
            (jobs (fst (run sample_schedule (sample_db, map (task_of sample_env) sample_requests))))
          = Some j' \<and> j_views j' = 9 \<and> j_applications j' = 3"
    by auto
  with up found fin show ?thesis
    by blast
qed

text \<open>
  The model tells the two apart: two read-then-write fetches whose operations
  alternate both answer, and one increment is lost; served one after the other
  they count twice.
\<close>

lemma read_then_write_loses_update:
  "list_all finished
     (snd (run [0, 1, 0, 1]
             (sample_db, [read_then_write_task acme_id, read_then_write_task acme_id]))) \<and>
   map_option j_views
     (find_job acme_id
        (jobs (fst (run [0, 1, 0, 1]
                      (sample_db, [read_then_write_task acme_id, read_then_write_task acme_id])))))
     = Some 8 \<and>
   map_option j_views
     (find_job acme_id
        (jobs (fst (run [0, 0, 1, 1]
                      (sample_db, [read_then_write_task acme_id, read_then_write_task acme_id])))))
     = Some 9 \<and>
   j_views acme_job = 7"
  by code_simp

section \<open>Malformed identifiers (C6)\<close>

lemma get_job_malformed:
  "castObjectId e rid = None \<Longrightarrow> res_status (snd (get_job e s rid)) = 400"
  by (simp add: get_job_def Job_findByIdAndUpdate_def respond_def)

lemma get_candidate_malformed:
  "castObjectId e rid = None \<Longrightarrow> res_status (get_candidate e s rid) = 500"
  by (simp add: get_candidate_def Candidate_findById_def respond_def)

lemma get_hotlist_malformed:
  "castObjectId e rid = None \<Longrightarrow> res_status (get_hotlist e s rid) = 500"
  by (simp add: get_hotlist_def Hotlist_findById_def respond_def)

text \<open>
  C6. The claim: every lookup by identifier (job, candidate, hotlist) answers a
  malformed identifier with 400, distinct from the 404 of a well-formed unknown
  one. On the code only the job lookup does: for the malformed identifier
  \<^verbatim>\<open>123\<close> the job lookup answers 400, the candidate and hotlist lookups answer
  500, as does the apply route; a well-formed unknown identifier gets 404.
\<close>

theorem C6_malformed_id_statuses:
  "castObjectId sample_env ''123'' = None \<and>
   res_status (snd (get_job sample_env sample_db ''123'')) = 400 \<and>
   res_status (get_candidate sample_env sample_db ''123'') = 500 \<and>
   res_status (get_hotlist sample_env sample_db ''123'') = 500 \<and>
   res_status (snd (apply_job sample_env sample_db ''123'')) = 500 \<and>
   res_status (get_candidate sample_env sample_db acme_id) = 404 \<and>
   res_status (get_hotlist sample_env sample_db acme_id) = 404"
  by code_simp

section \<open>Refused uploads (C7)\<close>

lemma upload_single_accepted:
  assumes "upload_single e ''resumeFile'' fs part = (fs', Inr (Some f))"
  shows "\<exists>p. part = Some p \<and> fp_fieldname p = ''resumeFile'' \<and> fileFilter p = Inr True \<and>
             fp_size p \<le> fileSize \<and> fs' = insert (storage_path e p) fs \<and>
             f = \<lparr>rq_filename = storage_filename e p, rq_path = storage_path e p,
                  rq_mimetype = fp_mimetype p\<rparr>"
  using assms
  by (cases part)
     (auto simp add: upload_single_def split: if_splits sum.splits bool.splits)

text \<open>A resume is accepted only for the three types and at most 5 MiB, and always below it.\<close>

lemma upload_single_accepts_only:
  assumes "upload_single e ''resumeFile'' fs (Some p) = (fs', Inr (Some f))"
  shows "(fp_mimetype p = ''application/pdf'' \<or> fp_mimetype p = ''application/msword'' \<or>
          fp_mimetype p =
            ''application/vnd.openxmlformats-officedocument.wordprocessingml.document'') \<and>
         fp_size p \<le> 5 * 1024 * 1024"
  using assms
  by (auto simp add: upload_single_def fileFilter_def fileSize_def
        split: if_splits sum.splits bool.splits)

lemma upload_single_accepts_below_limit:
  assumes "fp_fieldname p = ''resumeFile''"
    and "fp_mimetype p = ''application/pdf'' \<or> fp_mimetype p = ''application/msword'' \<or>
         fp_mimetype p =
           ''application/vnd.openxmlformats-officedocument.wordprocessingml.document''"
    and "fp_size p < 5 * 1024 * 1024"
  shows "\<exists>f. upload_single e ''resumeFile'' fs (Some p) = (insert (storage_path e p) fs, Inr (Some f))"
  using assms by (auto simp add: upload_single_def fileFilter_def fileSize_def)

text \<open>At exactly 5 MiB the outcome is the parser's: accepted unless it counts the limit as too large.\<close>

lemma upload_single_at_limit:
  assumes "fp_fieldname p = ''resumeFile''" and "fileFilter p = Inr True"
    and "fp_size p = fileSize"
  shows "(\<exists>f. upload_single e ''resumeFile'' fs (Some p) = (insert (storage_path e p) fs, Inr (Some f)))
           \<longleftrightarrow> \<not> rejects_at_limit e"
  using assms by (auto simp add: upload_single_def)

text \<open>A refused upload adds no file, provided the middleware's own unlink succeeds.\<close>

lemma upload_single_refused:
  assumes "upload_single e ''resumeFile'' fs (Some p) = (fs', Inl err)"
    and "unlink_ok e (storage_path e p)"
  shows "fs' = fs - {storage_path e p} \<or> fs' = fs"
  using assms
  by (auto simp add: upload_single_def unlink_def split: if_splits sum.splits bool.splits)

text \<open>
  C7. The claim: a resume of another type, or longer than 5 MiB, fails the
  request with 400 and leaves no file. On the code the refusal happens in the
  upload middleware, outside the handler's \<^verbatim>\<open>try\<close>; its error goes to the default
  error handler, which answers 500. For an \<^verbatim>\<open>image/png\<close> part and for a PDF of
  5 MiB plus one byte the response is 500; the uploads directory is unchanged.
\<close>

theorem C7_rejected_upload_status:
  "post_candidate_with_resume sample_env sample_world png_request =
     \<lparr>at_response = sample_world,
      sent = respond 500
               (ErrorPage (PlainError ''Invalid file type! Only PDF and DOC files are allowed.'')),
      unlinking = []\<rparr> \<and>
   post_candidate_with_resume sample_env sample_world big_request =
     \<lparr>at_response = sample_world,
      sent = respond 500 (ErrorPage (MulterError ''File too large'')),
      unlinking = []\<rparr>"
  by code_simp

section \<open>The updatedAt timestamp (C8)\<close>

lemma find_job_put_job: "find_job (j_id d) (put_job d xs) = Some d"
  by (induction xs) auto

lemma find_candidate_put_candidate: "find_candidate (c_id d) (put_candidate d xs) = Some d"
  by (induction xs) auto

text \<open>
  C8, as stated, at the view counter: the claim has \<^verbatim>\<open>updatedAt\<close> refreshed by
  the counter increments too. A detail fetch of the sample job at time
  1700000000000 succeeds and stores 8 views, and the stored \<^verbatim>\<open>updatedAt\<close> is still
  1600000000000: the update goes through \<^verbatim>\<open>findByIdAndUpdate\<close>, which does not
  run the pre-save hook.
\<close>

theorem C8_increment_keeps_updatedAt:
  "res_status (snd (get_job sample_env sample_db acme_id)) = 200 \<and>
   map_option j_views (find_job acme_id (jobs (fst (get_job sample_env sample_db acme_id)))) =
     Some 8 \<and>
   map_option j_updatedAt (find_job acme_id (jobs (fst (get_job sample_env sample_db acme_id)))) =
     Some 1600000000000 \<and>
   now sample_env = 1700000000000"
  by code_simp

text \<open>
  C8, amended. Every successful save of a Job or of a Candidate document, a
  re-save of a stored document included, writes the document with \<^verbatim>\<open>updatedAt\<close>
  set to the current time by the pre-save hook and with nothing else changed.
\<close>

theorem C8_save_refreshes_updatedAt:
  "(Job_save e s d = Inr (s', d') \<longrightarrow>
      j_updatedAt d' = now e \<and> d' = d\<lparr>j_updatedAt := now e\<rparr> \<and>
      find_job (j_id d) (jobs s') = Some d') \<and>
   (Candidate_save e s c = Inr (s'', c') \<longrightarrow>
      c_updatedAt c' = now e \<and> c' = c\<lparr>c_updatedAt := now e\<rparr> \<and>
      find_candidate (c_id c) (candidates s'') = Some c')"
proof -
  have "find_job (j_id d) (put_job (d\<lparr>j_updatedAt := now e\<rparr>) (jobs s)) =
          Some (d\<lparr>j_updatedAt := now e\<rparr>)"
    using find_job_put_job[of "d\<lparr>j_updatedAt := now e\<rparr>" "jobs s"] by simp
  moreover have "find_candidate (c_id c) (put_candidate (c\<lparr>c_updatedAt := now e\<rparr>) (candidates s)) =
          Some (c\<lparr>c_updatedAt := now e\<rparr>)"
    using find_candidate_put_candidate[of "c\<lparr>c_updatedAt := now e\<rparr>" "candidates s"] by simp
  ultimately show ?thesis
    by (auto simp add: Job_save_def Candidate_save_def job_pre_save_def candidate_pre_save_def
          Let_def split: if_splits)
qed

text \<open>
  C8, amended, at a concrete input: re-saving the stored sample job and the
  stored sample candidate at time 1700000000000 succeeds and stamps both.
\<close>

theorem C8_save_witness:
  "Job_save sample_env sample_db acme_job =
     Inr (sample_db\<lparr>jobs := [acme_job\<lparr>j_updatedAt := 1700000000000\<rparr>]\<rparr>,
          acme_job\<lparr>j_updatedAt := 1700000000000\<rparr>) \<and>
   Candidate_save sample_env sample_db ada =
     Inr (sample_db\<lparr>candidates := [ada\<lparr>c_updatedAt := 1700000000000\<rparr>]\<rparr>,
          ada\<lparr>c_updatedAt := 1700000000000\<rparr>) \<and>
   j_updatedAt (acme_job\<lparr>j_updatedAt := 1700000000000\<rparr>) = now sample_env \<and>
   c_updatedAt (ada\<lparr>c_updatedAt := 1700000000000\<rparr>) = now sample_env"
proof -
  have j: "Job_save sample_env sample_db acme_job =
     Inr (sample_db\<lparr>jobs := [acme_job\<lparr>j_updatedAt := 1700000000000\<rparr>]\<rparr>,
          acme_job\<lparr>j_updatedAt := 1700000000000\<rparr>)"
    by (simp add: Job_save_def job_pre_save_def sample_db_def sample_env_def Let_def)
  have c: "Candidate_save sample_env sample_db ada =
     Inr (sample_db\<lparr>candidates := [ada\<lparr>c_updatedAt := 1700000000000\<rparr>]\<rparr>,
          ada\<lparr>c_updatedAt := 1700000000000\<rparr>)"
    by (simp add: Candidate_save_def candidate_pre_save_def sample_db_def sample_env_def
          email_taken_def Let_def)
  from j c
    C8_save_refreshes_updatedAt[of sample_env sample_db acme_job
      "sample_db\<lparr>jobs := [acme_job\<lparr>j_updatedAt := 1700000000000\<rparr>]\<rparr>"
      "acme_job\<lparr>j_updatedAt := 1700000000000\<rparr>" ada
      "sample_db\<lparr>candidates := [ada\<lparr>c_updatedAt := 1700000000000\<rparr>]\<rparr>"
      "ada\<lparr>c_updatedAt := 1700000000000\<rparr>"]
  have "j_updatedAt (acme_job\<lparr>j_updatedAt := 1700000000000\<rparr>) = now sample_env \<and>
        c_updatedAt (ada\<lparr>c_updatedAt := 1700000000000\<rparr>) = now sample_env"
    by blast
  with j c show ?thesis
    by blast
qed

section \<open>Candidate search does not depend on resumes (C10)\<close>

lemma map_insort_key_lean:
  "map f (insort_key (\<lambda>x. k (f x)) x xs) = insort_key k (f x) (map f xs)"
  by (induction xs) simp_all

lemma map_sort_key_lean: "map f (sort_key (\<lambda>x. k (f x)) xs) = sort_key k (map f xs)"
  by (induction xs) (simp_all add: map_insort_key_lean)

lemma candidate_matches_lean:
  "candidate_matches g r c = lean_matches g r (select_minus_resumeFile c)"
  by (simp add: candidate_matches_def lean_matches_def select_minus_resumeFile_def
        candidate_lean.truncate_def)

lemma filter_matches_lean:
  "map select_minus_resumeFile (filter (candidate_matches g r) xs) =
   filter (lean_matches g r) (map select_minus_resumeFile xs)"
  by (induction xs) (simp_all add: candidate_matches_lean)

lemma sort_updatedAt_lean:
  "map select_minus_resumeFile (sort_key (\<lambda>c. - c_updatedAt c) xs) =
   sort_key (\<lambda>c. - c_updatedAt c) (map select_minus_resumeFile xs)"
proof -
  have "sort_key (\<lambda>c::candidate. - c_updatedAt c) xs =
        sort_key (\<lambda>c. - c_updatedAt (select_minus_resumeFile c)) xs"
    by (simp add: select_minus_resumeFile_def candidate_lean.truncate_def)
  then show ?thesis
    using map_sort_key_lean[of select_minus_resumeFile "\<lambda>c. - c_updatedAt c" xs]
    by (simp only:)
qed

text \<open>The whole pipeline is a function of the projected collection.\<close>

lemma search_pipeline_lean:
  "map select_minus_resumeFile
     (take n (sort_key (\<lambda>c. - c_updatedAt c) (filter (candidate_matches g r) xs))) =
   take n (sort_key (\<lambda>c. - c_updatedAt c)
             (filter (lean_matches g r) (map select_minus_resumeFile xs)))"
  by (simp only: take_map[symmetric] sort_updatedAt_lean filter_matches_lean)

text \<open>
  C10. The response of \<^verbatim>\<open>GET /candidates/search\<close> holds documents without a
  \<^verbatim>\<open>resumeFile\<close> field, and two stores whose candidates agree on every other field
  give the same response to every query.
\<close>

theorem C10_search_independent_of_resumeFile:
  assumes "map select_minus_resumeFile (candidates s1) =
           map select_minus_resumeFile (candidates s2)"
    and "db_up s1 = db_up s2"
  shows "search_candidates e s1 q = search_candidates e s2 q"
proof -
  have "Candidate_search e s1 r = Candidate_search e s2 r" for r
    using assms by (simp add: Candidate_search_def search_pipeline_lean)
  then show ?thesis
    by (cases q) (simp_all add: search_candidates_def)
qed

text \<open>
  C10 at a concrete input: two stores that hold the same candidate with
  different resumes answer the query \<^verbatim>\<open>go\<close> with the same one projected document.
\<close>

theorem C10_search_witness:
  "map select_minus_resumeFile (candidates sample_db) =
     map select_minus_resumeFile (candidates other_db) \<and>
   db_up sample_db = db_up other_db \<and>
   candidates sample_db \<noteq> candidates other_db \<and>
   search_candidates sample_env sample_db (Some ''go'') =
     search_candidates sample_env other_db (Some ''go'') \<and>
   search_candidates sample_env sample_db (Some ''go'') =
     respond 200 (CandidateData [select_minus_resumeFile ada])"
proof -
  have same: "map select_minus_resumeFile (candidates sample_db) =
              map select_minus_resumeFile (candidates other_db)"
    by code_simp
  have up: "db_up sample_db = db_up other_db"
    by code_simp
  have differ: "candidates sample_db \<noteq> candidates other_db"
    by code_simp
  have found: "search_candidates sample_env sample_db (Some ''go'') =
               respond 200 (CandidateData [select_minus_resumeFile ada])"
    by code_simp
  from C10_search_independent_of_resumeFile[OF same up, of sample_env "Some ''go''"]
    same up differ found
  show ?thesis
    by blast
qed

section \<open>Cleanup of the uploaded file when the save fails (C1)\<close>

text \<open>The save fails exactly for an invalid document, a broken connection or a taken address.\<close>

lemma Candidate_create_fails_iff:
  "(\<exists>err. Candidate_create e s i = Inl err) \<longleftrightarrow>
     \<not> Candidate_valid i \<or> \<not> db_up s \<or>
     email_taken (candidate_pre_save e (new_Candidate e i)) (candidates s)"
  by (simp add: Candidate_create_def Candidate_save_def Let_def)

lemma candidate_with_resume_saved:
  assumes "Candidate_create e (store w) (candidate_input_of e b file) = Inr (s', c)"
  shows "candidate_with_resume e w b file =
           \<lparr>at_response = w\<lparr>store := s'\<rparr>, sent = respond 201 (CandidateDoc c), unlinking = []\<rparr>"
  using assms by (simp add: candidate_with_resume_def)

text \<open>
  C1, as stated, where the file system refuses the unlink: the claim has no
  orphan file after any failed save. With \<^verbatim>\<open>email\<close> omitted and a valid PDF
  uploaded, the save fails and the response is 400, but the unlink error is only
  logged and the file written by the middleware is still in the uploads
  directory.
\<close>

theorem C1_unlink_failure_counterexample:
  "upload_single stuck_env ''resumeFile'' (uploads sample_world) (rr_part no_email_request) =
     (insert ''uploads/1700000000000-cv.pdf'' (uploads sample_world),
      Inr (Some \<lparr>rq_filename = ''1700000000000-cv.pdf'', rq_path = ''uploads/1700000000000-cv.pdf'',
                 rq_mimetype = ''application/pdf''\<rparr>)) \<and>
   Candidate_create stuck_env (store sample_world)
     (candidate_input_of stuck_env (rr_body no_email_request)
        (Some \<lparr>rq_filename = ''1700000000000-cv.pdf'', rq_path = ''uploads/1700000000000-cv.pdf'',
               rq_mimetype = ''application/pdf''\<rparr>)) =
     Inl (ValidationError ''Candidate validation failed'') \<and>
   ''uploads/1700000000000-cv.pdf'' \<notin> uploads sample_world \<and>
   res_status (sent (post_candidate_with_resume stuck_env sample_world no_email_request)) = 400 \<and>
   ''uploads/1700000000000-cv.pdf'' \<in>
     uploads (settle stuck_env (post_candidate_with_resume stuck_env sample_world no_email_request))"
  by code_simp

text \<open>
  C1, amended. When the upload middleware has accepted and written the file and
  the save fails, for whatever reason, the response is 400 with the message of
  that failure, the store is unchanged, and the response is sent with the unlink
  of the just-written file started and not awaited. Once that unlink has
  completed the file is gone, provided the file system did not refuse it.
\<close>

theorem C1_failed_save_unlinks_upload:
  assumes "upload_single e ''resumeFile'' (uploads w) (rr_part r) = (fs, Inr (Some f))"
    and "Candidate_create e (store w) (candidate_input_of e (rr_body r) (Some f)) = Inl err"
  shows "post_candidate_with_resume e w r =
           \<lparr>at_response = w\<lparr>uploads := fs\<rparr>, sent = respond 400 (MessageOf err),
            unlinking = [rq_path f]\<rparr> \<and>
         rq_path f \<in> fs \<and>
         settle e (post_candidate_with_resume e w r) =
           w\<lparr>uploads := unlink e (rq_path f) fs\<rparr> \<and>
         (unlink_ok e (rq_path f) \<longrightarrow>
            rq_path f \<notin> uploads (settle e (post_candidate_with_resume e w r)))"
proof -
  have result: "post_candidate_with_resume e w r =
           \<lparr>at_response = w\<lparr>uploads := fs\<rparr>, sent = respond 400 (MessageOf err),
            unlinking = [rq_path f]\<rparr>"
    using assms by (simp add: post_candidate_with_resume_def candidate_with_resume_def)
  have written: "rq_path f \<in> fs"
    using upload_single_accepted[OF assms(1)] by auto
  show ?thesis
    unfolding result using written by (simp add: settle_def unlink_def)
qed

text \<open>
  C1, amended, at a concrete input: a valid PDF with \<^verbatim>\<open>email\<close> omitted, in an
  environment where the unlink succeeds, is answered 400 with the unlink of the
  file in flight, and the file is gone once the unlink has completed.
\<close>

theorem C1_cleanup_witness:
  "upload_single sample_env ''resumeFile'' (uploads sample_world) (rr_part no_email_request) =
     (insert ''uploads/1700000000000-cv.pdf'' (uploads sample_world),
      Inr (Some \<lparr>rq_filename = ''1700000000000-cv.pdf'', rq_path = ''uploads/1700000000000-cv.pdf'',
                 rq_mimetype = ''application/pdf''\<rparr>)) \<and>
   Candidate_create sample_env (store sample_world)
     (candidate_input_of sample_env (rr_body no_email_request)
        (Some \<lparr>rq_filename = ''1700000000000-cv.pdf'', rq_path = ''uploads/1700000000000-cv.pdf'',
               rq_mimetype = ''application/pdf''\<rparr>)) =
     Inl (ValidationError ''Candidate validation failed'') \<and>
   unlink_ok sample_env ''uploads/1700000000000-cv.pdf'' \<and>
   sent (post_candidate_with_resume sample_env sample_world no_email_request) =
     respond 400 (MessageOf (ValidationError ''Candidate validation failed'')) \<and>
   unlinking (post_candidate_with_resume sample_env sample_world no_email_request) =
     [''uploads/1700000000000-cv.pdf''] \<and>
   ''uploads/1700000000000-cv.pdf'' \<notin>
     uploads (settle sample_env (post_candidate_with_resume sample_env sample_world no_email_request))"
proof -
  let ?f = "\<lparr>rq_filename = ''1700000000000-cv.pdf'', rq_path = ''uploads/1700000000000-cv.pdf'',
             rq_mimetype = ''application/pdf''\<rparr>"
  have written: "upload_single sample_env ''resumeFile'' (uploads sample_world)
      (rr_part no_email_request) =
     (insert ''uploads/1700000000000-cv.pdf'' (uploads sample_world), Inr (Some ?f))"
    by code_simp
  have failed: "Candidate_create sample_env (store sample_world)
      (candidate_input_of sample_env (rr_body no_email_request) (Some ?f)) =
     Inl (ValidationError ''Candidate validation failed'')"
    by code_simp
  have ok: "unlink_ok sample_env ''uploads/1700000000000-cv.pdf''"
    by (simp add: sample_env_def)
  have path: "rq_path ?f = ''uploads/1700000000000-cv.pdf''"
    by simp
  note cleanup = C1_failed_save_unlinks_upload[OF written failed, unfolded path]
  from cleanup ok have gone: "''uploads/1700000000000-cv.pdf'' \<notin>
      uploads (settle sample_env
                 (post_candidate_with_resume sample_env sample_world no_email_request))"
    by blast
  from cleanup have result: "post_candidate_with_resume sample_env sample_world no_email_request =
      \<lparr>at_response = sample_world\<lparr>uploads :=
         insert ''uploads/1700000000000-cv.pdf'' (uploads sample_world)\<rparr>,
       sent = respond 400 (MessageOf (ValidationError ''Candidate validation failed'')),
       unlinking = [''uploads/1700000000000-cv.pdf'']\<rparr>"
    by blast
  have answer: "sent (post_candidate_with_resume sample_env sample_world no_email_request) =
      respond 400 (MessageOf (ValidationError ''Candidate validation failed''))"
    by (simp add: result)
  have started: "unlinking (post_candidate_with_resume sample_env sample_world no_email_request) =
      [''uploads/1700000000000-cv.pdf'']"
    by (simp add: result)
  from written failed ok answer started gone show ?thesis
    by blast
qed

end
